theory Spec2Isabelle
  imports Complex_Main "HOL-Library.Sublist" "HOL-Library.AList"
begin

unbundle bit_operations_syntax

section \<open>Python strings and POSIX path functions used by the service\<close>

text \<open>
  A Python \<^verbatim>\<open>str\<close> is a sequence of Unicode code points; it is modelled as a list of
  natural numbers, so that every string a request can carry (a NUL, a non-ASCII
  letter, a lone surrogate) is a value of the model. \<open>u\<close> and \<open>ch\<close> write ASCII text
  and characters. The functions of this section are the ones the service calls from
  \<^verbatim>\<open>str\<close> and \<^verbatim>\<open>os.path\<close> (POSIX flavour); they are written after the behaviour of
  the Python standard library, because the path guards of \<^verbatim>\<open>src/main.py\<close> are only as
  strong as these functions make them.
\<close>

type_synonym pystr = "nat list"

definition ch :: "char \<Rightarrow> nat" where
  "ch c = of_char c"

definition u :: "string \<Rightarrow> pystr" where
  "u s = map ch s"

definition startswith :: "pystr \<Rightarrow> pystr \<Rightarrow> bool" where
  "startswith s p = prefix p s"

definition endswith :: "pystr \<Rightarrow> pystr \<Rightarrow> bool" where
  "endswith s p = prefix (rev p) (rev s)"

text \<open>\<^verbatim>\<open>s.split(c)\<close> for a one-character separator: never the empty list.\<close>

fun split_on :: "nat \<Rightarrow> pystr \<Rightarrow> pystr list" where
  "split_on c [] = [[]]"
| "split_on c (x # xs) =
     (if x = c then [] # split_on c xs
      else (case split_on c xs of
              w # ws \<Rightarrow> (x # w) # ws
            | [] \<Rightarrow> [[x]]))"

text \<open>\<^verbatim>\<open>sep.join(comps)\<close>.\<close>

fun sep_join :: "pystr \<Rightarrow> pystr list \<Rightarrow> pystr" where
  "sep_join sep [] = []"
| "sep_join sep [x] = x"
| "sep_join sep (x # y # ys) = x @ sep @ sep_join sep (y # ys)"

text \<open>
  \<^verbatim>\<open>s.replace(old, new)\<close> for a non-empty \<^verbatim>\<open>old\<close>: the occurrences are found from
  left to right and do not overlap.
\<close>

function replace :: "pystr \<Rightarrow> pystr \<Rightarrow> pystr \<Rightarrow> pystr" where
  "replace old new [] = []"
| "replace old new (x # xs) =
     (if old \<noteq> [] \<and> prefix old (x # xs)
      then new @ replace old new (drop (length old) (x # xs))
      else x # replace old new xs)"
  by pat_completeness auto
termination
  by (relation "measure (\<lambda>(old, new, s). length s)") auto

text \<open>
  \<^verbatim>\<open>posixpath.normpath\<close>: empty and \<^verbatim>\<open>.\<close> components are dropped, a \<^verbatim>\<open>..\<close> removes
  the component before it (or is kept at the front of a relative path, or dropped at
  the root), one or exactly two leading slashes are kept. The function is purely
  lexical: it never looks at the file system.
\<close>

definition normpath_step :: "nat \<Rightarrow> pystr list \<Rightarrow> pystr \<Rightarrow> pystr list" where
  "normpath_step initial_slashes new_comps cmp =
     (if cmp = [] \<or> cmp = u ''.'' then new_comps
      else if cmp \<noteq> u ''..'' \<or> (initial_slashes = 0 \<and> new_comps = [])
              \<or> (new_comps \<noteq> [] \<and> last new_comps = u ''..'')
      then new_comps @ [cmp]
      else if new_comps \<noteq> [] then butlast new_comps
      else new_comps)"

definition normpath :: "pystr \<Rightarrow> pystr" where
  "normpath path =
     (if path = [] then u ''.''
      else
        let initial_slashes =
              (if startswith path (u ''/'')
               then (if startswith path (u ''//'') \<and> \<not> startswith path (u ''///'')
                     then 2 else 1)
               else (0::nat));
            comps = split_on (ch CHR ''/'') path;
            new_comps = foldl (normpath_step initial_slashes) [] comps;
            p = replicate initial_slashes (ch CHR ''/'') @ sep_join (u ''/'') new_comps
        in if p = [] then u ''.'' else p)"

text \<open>\<^verbatim>\<open>os.path.join(a, b)\<close> for two arguments.\<close>

definition path_join :: "pystr \<Rightarrow> pystr \<Rightarrow> pystr" where
  "path_join a b =
     (if startswith b (u ''/'') then b
      else if a = [] \<or> endswith a (u ''/'') then a @ b
      else a @ u ''/'' @ b)"

text \<open>
  \<^verbatim>\<open>os.path.abspath(path)\<close>: join with the current directory when the path is
  relative, then \<^verbatim>\<open>normpath\<close>. Symbolic links are not resolved (that would be
  \<^verbatim>\<open>os.path.realpath\<close>, which the service never calls).
\<close>

definition abspath :: "pystr \<Rightarrow> pystr \<Rightarrow> pystr" where
  "abspath cwd path =
     normpath (if startswith path (u ''/'') then path else path_join cwd path)"

text \<open>\<^verbatim>\<open>os.path.dirname(p)\<close>.\<close>

definition dirname :: "pystr \<Rightarrow> pystr" where
  "dirname p =
     (let head = rev (dropWhile (\<lambda>c. c \<noteq> ch CHR ''/'') (rev p))
      in if head \<noteq> [] \<and> head \<noteq> replicate (length head) (ch CHR ''/'')
         then rev (dropWhile (\<lambda>c. c = ch CHR ''/'') (rev head))
         else head)"

section \<open>Exceptions\<close>

text \<open>
  Every \<^verbatim>\<open>raise\<close> of the source is a value. The handlers of \<^verbatim>\<open>src/main.py\<close> test
  for three classes: \<^verbatim>\<open>except ValueError\<close>, \<^verbatim>\<open>except TimeoutError\<close> and
  \<^verbatim>\<open>except Exception\<close>; an exception that derives from \<^verbatim>\<open>BaseException\<close> only
  (\<^verbatim>\<open>SystemExit\<close>, \<^verbatim>\<open>KeyboardInterrupt\<close>, \<^verbatim>\<open>GeneratorExit\<close>) passes all three.
  FastAPI's \<^verbatim>\<open>HTTPException\<close> derives from \<^verbatim>\<open>Exception\<close>. \<^verbatim>\<open>os.makedirs\<close> tests
  for \<^verbatim>\<open>OSError\<close>, of which the built-in \<^verbatim>\<open>TimeoutError\<close> is a subclass; a
  \<^verbatim>\<open>UnicodeError\<close> is a \<^verbatim>\<open>ValueError\<close>. The interpreter is Python 3.11 or later,
  where \<^verbatim>\<open>concurrent.futures.TimeoutError\<close> is the built-in \<^verbatim>\<open>TimeoutError\<close> that
  \<^verbatim>\<open>evaluate_cases\<close> names in its handler.
\<close>

datatype exc_base =
    BaseOnly
  | IsValueError
  | IsOSError
  | IsTimeoutError
  | OtherException

datatype pyexc =
    HTTPException nat pystr
  | PyExc exc_base pystr pystr pystr

text \<open>
  \<open>PyExc base name text tb\<close>: \<open>name\<close> is \<^verbatim>\<open>type(e).__name__\<close>, \<open>text\<close> is
  \<^verbatim>\<open>str(e)\<close>, \<open>tb\<close> is what \<^verbatim>\<open>traceback.format_exc()\<close> prints for it.
  \<open>HTTPException status detail\<close> prints as \<^verbatim>\<open>"<status>: <detail>"\<close> (Starlette's
  \<^verbatim>\<open>__str__\<close>).
\<close>

fun is_Exception :: "pyexc \<Rightarrow> bool" where
  "is_Exception (HTTPException _ _) = True"
| "is_Exception (PyExc b _ _ _) = (b \<noteq> BaseOnly)"

fun is_ValueError :: "pyexc \<Rightarrow> bool" where
  "is_ValueError (PyExc b _ _ _) = (b = IsValueError)"
| "is_ValueError _ = False"

fun is_TimeoutError :: "pyexc \<Rightarrow> bool" where
  "is_TimeoutError (PyExc b _ _ _) = (b = IsTimeoutError)"
| "is_TimeoutError _ = False"

fun is_OSError :: "pyexc \<Rightarrow> bool" where
  "is_OSError (PyExc b _ _ _) = (b = IsOSError \<or> b = IsTimeoutError)"
| "is_OSError _ = False"

definition digit_char :: "nat \<Rightarrow> nat" where
  "digit_char n = 48 + n mod 10"

fun str_nat :: "nat \<Rightarrow> pystr" where
  "str_nat n = (if n < 10 then [digit_char n] else str_nat (n div 10) @ [digit_char n])"

declare str_nat.simps [simp del]

fun exc_name :: "pyexc \<Rightarrow> pystr" where
  "exc_name (HTTPException _ _) = u ''HTTPException''"
| "exc_name (PyExc _ n _ _) = n"

fun exc_str :: "pyexc \<Rightarrow> pystr" where
  "exc_str (HTTPException status detail) = str_nat status @ u '': '' @ detail"
| "exc_str (PyExc _ _ t _) = t"

fun format_exc :: "pyexc \<Rightarrow> pystr" where
  "format_exc (HTTPException _ _) = []"
| "format_exc (PyExc _ _ _ tb) = tb"

definition ValueError :: "pystr \<Rightarrow> pyexc" where
  "ValueError msg = PyExc IsValueError (u ''ValueError'') msg []"

definition UnicodeEncodeError :: "pystr \<Rightarrow> pyexc" where
  "UnicodeEncodeError msg = PyExc IsValueError (u ''UnicodeEncodeError'') msg []"

definition UnicodeDecodeError :: "pystr \<Rightarrow> pyexc" where
  "UnicodeDecodeError msg = PyExc IsValueError (u ''UnicodeDecodeError'') msg []"

definition KeyError :: "pystr \<Rightarrow> pyexc" where
  "KeyError key = PyExc OtherException (u ''KeyError'') ([39] @ key @ [39]) []"

definition TypeError :: "pystr \<Rightarrow> pyexc" where
  "TypeError msg = PyExc OtherException (u ''TypeError'') msg []"

definition OSError :: "string \<Rightarrow> pystr \<Rightarrow> pyexc" where
  "OSError name msg = PyExc IsOSError (u name) msg []"

section \<open>The session directory and the relative-path guard\<close>

definition TMP_ROOT :: pystr where
  "TMP_ROOT = u ''/tmp/genie_repl''"

definition safe_dirname :: "pystr \<Rightarrow> pystr" where
  "safe_dirname session_id =
     path_join TMP_ROOT (replace (u ''..'') (u ''__'') (replace (u ''/'') (u ''_'') session_id))"

text \<open>
  The claim about the session directory as the specification words it, for comparison
  with what \<open>safe_dirname\<close> does: the directory that a returned path addresses lies
  directly under the root, that is, its parent directory is the root.
\<close>

definition directly_under_root :: "pystr \<Rightarrow> pystr \<Rightarrow> bool" where
  "directly_under_root cwd p = (dirname (abspath cwd p) = TMP_ROOT)"

definition safe_rel_path :: "pystr \<Rightarrow> pyexc + pystr" where
  "safe_rel_path rel_path =
     (let rel = normpath rel_path in
      if startswith rel (u ''../'') \<or> startswith rel (u ''/'')
      then Inl (ValueError (u ''Invalid path''))
      else if u ''..'' \<in> set (split_on (ch CHR ''/'') rel)
      then Inl (ValueError (u ''Invalid path: Parent traversal not allowed''))
      else Inr rel)"

section \<open>The file system the endpoints act on\<close>

text \<open>
  A tree of directories, regular files and symbolic links, keyed by the canonical list
  of path components below \<^verbatim>\<open>/\<close>. The operations are the system calls behind
  \<^verbatim>\<open>os.path.isdir\<close>, \<^verbatim>\<open>os.path.isfile\<close>, \<^verbatim>\<open>os.path.exists\<close>, \<^verbatim>\<open>os.mkdir\<close>,
  \<^verbatim>\<open>open(..., "w")\<close>, \<^verbatim>\<open>os.remove\<close> and \<^verbatim>\<open>os.rename\<close>, with what Python does before it
  reaches the kernel: a path is encoded with the file-system encoding, and a path that
  cannot be encoded, or holds a NUL, is refused with a \<^verbatim>\<open>ValueError\<close>. Permissions, disk
  space and concurrent changes by other processes are not modelled; the text of an
  \<^verbatim>\<open>OSError\<close> is abbreviated to the path it names.

  A regular file holds text (the file's bytes are its UTF-8 encoding), or bytes that
  are not UTF-8; the latter carries the text of the \<^verbatim>\<open>UnicodeDecodeError\<close> that
  reading it raises.
\<close>

datatype node = Dir | File pystr | Undecodable pystr | Symlink pystr

type_synonym fs = "pystr list \<rightharpoonup> node"

text \<open>
  \<open>fsencode_error p\<close> is the text of the \<^verbatim>\<open>UnicodeEncodeError\<close> that \<^verbatim>\<open>os.fsencode(p)\<close>
  raises, if it raises; \<open>utf8_error s\<close> is the text of the one that
  \<^verbatim>\<open>s.encode("utf-8")\<close> raises when \<open>s\<close> holds a surrogate code point.
\<close>

record os_state =
  cwd :: pystr
  files :: fs
  fsencode_error :: "pystr \<Rightarrow> pystr option"
  utf8_error :: "pystr \<Rightarrow> pystr"

definition path_error :: "os_state \<Rightarrow> pystr \<Rightarrow> pyexc option" where
  "path_error os p =
     (case fsencode_error os p of
        Some msg \<Rightarrow> Some (UnicodeEncodeError msg)
      | None \<Rightarrow> if 0 \<in> set p then Some (ValueError (u ''embedded null byte'')) else None)"

definition is_dir_at :: "fs \<Rightarrow> pystr list \<Rightarrow> bool" where
  "is_dir_at t q = (q = [] \<or> t q = Some Dir)"

text \<open>
  Path resolution as the kernel does it: component by component, every component
  looked up in a directory, following symbolic links (at most \<open>fuel\<close> of them, after
  which the call fails with \<^verbatim>\<open>ELOOP\<close>). The result is the canonical place the path
  names, which may hold nothing yet.
\<close>

fun walk :: "nat \<Rightarrow> fs \<Rightarrow> pystr list \<Rightarrow> pystr list \<Rightarrow> pystr list option" where
  "walk fuel t cur [] = Some cur"
| "walk fuel t cur (c # cs) =
     (if \<not> is_dir_at t cur then None
      else if c = [] \<or> c = u ''.'' then walk fuel t cur cs
      else if c = u ''..'' then walk fuel t (butlast cur) cs
      else (case t (cur @ [c]) of
              Some (Symlink target) \<Rightarrow>
                (case fuel of
                   0 \<Rightarrow> None
                 | Suc f \<Rightarrow>
                     walk f t (if startswith target (u ''/'') then [] else cur)
                       (split_on (ch CHR ''/'') target @ cs))
            | _ \<Rightarrow> walk fuel t (cur @ [c]) cs))"

definition path_comps :: "os_state \<Rightarrow> pystr \<Rightarrow> pystr list" where
  "path_comps os p =
     filter (\<lambda>c. c \<noteq> [] \<and> c \<noteq> u ''.'')
       (split_on (ch CHR ''/'') (if startswith p (u ''/'') then p else path_join (cwd os) p))"

text \<open>\<open>resolve\<close> follows every link (\<^verbatim>\<open>stat\<close>, \<^verbatim>\<open>open\<close>, \<^verbatim>\<open>os.path.realpath\<close>);
  \<open>lresolve\<close> leaves the last component alone (\<^verbatim>\<open>mkdir\<close>, \<^verbatim>\<open>unlink\<close>, \<^verbatim>\<open>rename\<close>).
  The empty path names nothing.\<close>

definition resolve :: "os_state \<Rightarrow> pystr \<Rightarrow> pystr list option" where
  "resolve os p = (if p = [] then None else walk 40 (files os) [] (path_comps os p))"

definition lresolve :: "os_state \<Rightarrow> pystr \<Rightarrow> pystr list option" where
  "lresolve os p =
     (let cs = path_comps os p in
      if p = [] then None
      else if cs = [] then Some []
      else if last cs = u ''..'' then walk 40 (files os) [] cs
      else map_option (\<lambda>d. d @ [last cs]) (walk 40 (files os) [] (butlast cs)))"

definition node_at :: "os_state \<Rightarrow> pystr list \<Rightarrow> node option" where
  "node_at os q = (if q = [] then Some Dir else files os q)"

text \<open>\<^verbatim>\<open>os.path.exists\<close>, \<^verbatim>\<open>os.path.isdir\<close> and \<^verbatim>\<open>os.path.isfile\<close> answer \<^verbatim>\<open>False\<close> when
  \<^verbatim>\<open>os.stat\<close> raises an \<^verbatim>\<open>OSError\<close> or a \<^verbatim>\<open>ValueError\<close>.\<close>

definition stat :: "os_state \<Rightarrow> pystr \<Rightarrow> node option" where
  "stat os p =
     (if path_error os p \<noteq> None then None
      else (case resolve os p of None \<Rightarrow> None | Some q \<Rightarrow> node_at os q))"

definition path_exists :: "os_state \<Rightarrow> pystr \<Rightarrow> bool" where
  "path_exists os p = (stat os p \<noteq> None)"

definition isdir :: "os_state \<Rightarrow> pystr \<Rightarrow> bool" where
  "isdir os p = (stat os p = Some Dir)"

definition isfile :: "os_state \<Rightarrow> pystr \<Rightarrow> bool" where
  "isfile os p = (case stat os p of Some (File _) \<Rightarrow> True | Some (Undecodable _) \<Rightarrow> True | _ \<Rightarrow> False)"

definition mkdir :: "os_state \<Rightarrow> pystr \<Rightarrow> pyexc option \<times> os_state" where
  "mkdir os p =
     (case path_error os p of
        Some e \<Rightarrow> (Some e, os)
      | None \<Rightarrow>
          (case lresolve os p of
             None \<Rightarrow> (Some (OSError ''FileNotFoundError'' p), os)
           | Some q \<Rightarrow>
               if node_at os q \<noteq> None then (Some (OSError ''FileExistsError'' p), os)
               else if node_at os (butlast q) = Some Dir
               then (None, os\<lparr>files := (files os)(q \<mapsto> Dir)\<rparr>)
               else (Some (OSError ''FileNotFoundError'' p), os)))"

text \<open>
  \<^verbatim>\<open>os.makedirs(name, exist_ok=True)\<close>. The library recurses on \<^verbatim>\<open>os.path.split(name)\<close>
  while the head does not exist and creates the directories on the way back; that is,
  it goes through the leading parts of the path, shortest first, and calls \<^verbatim>\<open>mkdir\<close>
  on each that does not exist. A \<^verbatim>\<open>FileExistsError\<close> from a leading part is passed
  over; for the last part every \<^verbatim>\<open>OSError\<close> is, if the path is a directory by then.
  Any other exception stops the call, and what was created before stays.
\<close>

fun heads_from :: "pystr \<Rightarrow> pystr list \<Rightarrow> pystr list" where
  "heads_from pre [] = []"
| "heads_from pre (c # cs) =
     (if c = [] then heads_from pre cs
      else (let q = path_join pre c in q # heads_from q cs))"

definition heads :: "pystr \<Rightarrow> pystr list" where
  "heads name =
     heads_from (if startswith name (u ''/'') then u ''/'' else [])
       (split_on (ch CHR ''/'') name)"

fun makedirs_loop :: "os_state \<Rightarrow> pystr list \<Rightarrow> pyexc option \<times> os_state" where
  "makedirs_loop os [] = (None, os)"
| "makedirs_loop os [name] =
     (case mkdir os name of
        (None, os1) \<Rightarrow> (None, os1)
      | (Some e, os1) \<Rightarrow>
          if is_OSError e \<and> isdir os1 name then (None, os1) else (Some e, os1))"
| "makedirs_loop os (h # h2 # hs) =
     (if path_exists os h then makedirs_loop os (h2 # hs)
      else (case mkdir os h of
              (None, os1) \<Rightarrow> makedirs_loop os1 (h2 # hs)
            | (Some e, os1) \<Rightarrow>
                if exc_name e = u ''FileExistsError'' then makedirs_loop os1 (h2 # hs)
                else (Some e, os1)))"

definition makedirs :: "os_state \<Rightarrow> pystr \<Rightarrow> pyexc option \<times> os_state" where
  "makedirs os name =
     (if name = [] then (Some (OSError ''FileNotFoundError'' name), os)
      else makedirs_loop os (heads name))"

definition has_surrogate :: "pystr \<Rightarrow> bool" where
  "has_surrogate s = list_ex (\<lambda>c. 55296 \<le> c \<and> c \<le> 57343) s"

text \<open>
  \<^verbatim>\<open>with open(p, "w", encoding="utf-8") as f: f.write(content)\<close>: links are followed,
  the parent must be a directory, the target must not be one; the file is created or
  emptied when it is opened, and \<^verbatim>\<open>f.write\<close> raises \<^verbatim>\<open>UnicodeEncodeError\<close> for a
  text with a surrogate code point, which leaves the file empty.
\<close>

definition open_write :: "os_state \<Rightarrow> pystr \<Rightarrow> pystr \<Rightarrow> pyexc option \<times> os_state" where
  "open_write os p content =
     (case path_error os p of
        Some e \<Rightarrow> (Some e, os)
      | None \<Rightarrow>
          (case resolve os p of
             None \<Rightarrow> (Some (OSError ''FileNotFoundError'' p), os)
           | Some q \<Rightarrow>
               if node_at os q = Some Dir then (Some (OSError ''IsADirectoryError'' p), os)
               else if node_at os (butlast q) \<noteq> Some Dir
               then (Some (OSError ''FileNotFoundError'' p), os)
               else if has_surrogate content
               then (Some (UnicodeEncodeError (utf8_error os content)),
                     os\<lparr>files := (files os)(q \<mapsto> File [])\<rparr>)
               else (None, os\<lparr>files := (files os)(q \<mapsto> File content)\<rparr>)))"

text \<open>\<^verbatim>\<open>f.read()\<close> of a file opened with \<^verbatim>\<open>open(p, "r", encoding="utf-8")\<close>: the text,
  with \<^verbatim>\<open>\r\n\<close> and \<^verbatim>\<open>\r\<close> read as \<^verbatim>\<open>\n\<close>.\<close>

fun universal_newlines :: "pystr \<Rightarrow> pystr" where
  "universal_newlines [] = []"
| "universal_newlines [c] = [if c = 13 then 10 else c]"
| "universal_newlines (c # d # s) =
     (if c = 13 \<and> d = 10 then 10 # universal_newlines s
      else (if c = 13 then 10 else c) # universal_newlines (d # s))"

definition open_read :: "os_state \<Rightarrow> pystr \<Rightarrow> pyexc + pystr" where
  "open_read os p =
     (case path_error os p of
        Some e \<Rightarrow> Inl e
      | None \<Rightarrow>
          (case stat os p of
             Some (File content) \<Rightarrow> Inr (universal_newlines content)
           | Some (Undecodable msg) \<Rightarrow> Inl (UnicodeDecodeError msg)
           | Some Dir \<Rightarrow> Inl (OSError ''IsADirectoryError'' p)
           | _ \<Rightarrow> Inl (OSError ''FileNotFoundError'' p)))"

definition os_remove :: "os_state \<Rightarrow> pystr \<Rightarrow> pyexc option \<times> os_state" where
  "os_remove os p =
     (case path_error os p of
        Some e \<Rightarrow> (Some e, os)
      | None \<Rightarrow>
          (case lresolve os p of
             None \<Rightarrow> (Some (OSError ''FileNotFoundError'' p), os)
           | Some q \<Rightarrow>
               (case node_at os q of
                  None \<Rightarrow> (Some (OSError ''FileNotFoundError'' p), os)
                | Some Dir \<Rightarrow> (Some (OSError ''IsADirectoryError'' p), os)
                | Some _ \<Rightarrow> (None, os\<lparr>files := (files os)(q := None)\<rparr>))))"

text \<open>\<^verbatim>\<open>os.rename(a, b)\<close> for a source that is a file or a link (the endpoint checks
  \<^verbatim>\<open>isfile\<close> first): the entry moves; the new parent must be a directory and the new
  name must not be one.\<close>

definition os_rename :: "os_state \<Rightarrow> pystr \<Rightarrow> pystr \<Rightarrow> pyexc option \<times> os_state" where
  "os_rename os a b =
     (case path_error os a of
        Some e \<Rightarrow> (Some e, os)
      | None \<Rightarrow>
     (case path_error os b of
        Some e \<Rightarrow> (Some e, os)
      | None \<Rightarrow>
     (case (lresolve os a, lresolve os b) of
        (Some qa, Some qb) \<Rightarrow>
          (case node_at os qa of
             None \<Rightarrow> (Some (OSError ''FileNotFoundError'' a), os)
           | Some Dir \<Rightarrow> (Some (OSError ''OSError'' a), os)
           | Some n \<Rightarrow>
               if node_at os qb = Some Dir then (Some (OSError ''IsADirectoryError'' b), os)
               else if node_at os (butlast qb) \<noteq> Some Dir
               then (Some (OSError ''FileNotFoundError'' b), os)
               else (None, os\<lparr>files := ((files os)(qa := None))(qb \<mapsto> n)\<rparr>))
      | _ \<Rightarrow> (Some (OSError ''FileNotFoundError'' a), os))))"

section \<open>The file endpoints\<close>

record WriteFileRequest =
  wf_id :: pystr
  wf_rel_path :: pystr
  wf_content :: pystr

record DeleteFileRequest =
  df_id :: pystr
  df_rel_path :: pystr

record RenameFileRequest =
  rf_id :: pystr
  rf_old_path :: pystr
  rf_new_path :: pystr

datatype file_ok =
    WriteOk pystr pystr
  | DeleteOk pystr pystr
  | RenameOk pystr pystr pystr

text \<open>
  The two handlers that close \<^verbatim>\<open>write_file\<close>, \<^verbatim>\<open>delete_file\<close> and \<^verbatim>\<open>rename_file\<close>:
  \<^verbatim>\<open>except ValueError as e: raise HTTPException(400, str(e))\<close>, then
  \<^verbatim>\<open>except Exception as e: raise HTTPException(500, str(e))\<close>. The second one also
  catches an \<^verbatim>\<open>HTTPException\<close> raised inside the \<^verbatim>\<open>try\<close> block.
\<close>

definition file_handlers :: "pyexc + 'a \<Rightarrow> pyexc + 'a" where
  "file_handlers r =
     (case r of
        Inr v \<Rightarrow> Inr v
      | Inl e \<Rightarrow>
          if is_ValueError e then Inl (HTTPException 400 (exc_str e))
          else if is_Exception e then Inl (HTTPException 500 (exc_str e))
          else Inl e)"

definition write_file_body :: "os_state \<Rightarrow> WriteFileRequest \<Rightarrow> (pyexc + file_ok) \<times> os_state" where
  "write_file_body os req =
     (let workdir = safe_dirname (wf_id req) in
      case safe_rel_path (wf_rel_path req) of
        Inl e \<Rightarrow> (Inl e, os)
      | Inr rel_path \<Rightarrow>
          let target_path = path_join workdir rel_path;
              abs_workdir = abspath (cwd os) workdir;
              abs_target = abspath (cwd os) target_path
          in if \<not> startswith abs_target abs_workdir
             then (Inl (HTTPException 400 (u ''Path traversal detected'')), os)
             else
               let target_dir = dirname abs_target in
               (case makedirs os target_dir of
                  (Some e, os1) \<Rightarrow> (Inl e, os1)
                | (None, os1) \<Rightarrow>
                    (case open_write os1 abs_target (wf_content req) of
                       (Some e, os2) \<Rightarrow> (Inl e, os2)
                     | (None, os2) \<Rightarrow>
                         (Inr (WriteOk (wf_id req) (wf_rel_path req)), os2))))"

definition write_file :: "os_state \<Rightarrow> WriteFileRequest \<Rightarrow> (pyexc + file_ok) \<times> os_state" where
  "write_file os req = apfst file_handlers (write_file_body os req)"

definition delete_file_body :: "os_state \<Rightarrow> DeleteFileRequest \<Rightarrow> (pyexc + file_ok) \<times> os_state" where
  "delete_file_body os req =
     (let workdir = safe_dirname (df_id req) in
      case safe_rel_path (df_rel_path req) of
        Inl e \<Rightarrow> (Inl e, os)
      | Inr rel_path \<Rightarrow>
          let target_path = path_join workdir rel_path;
              abs_workdir = abspath (cwd os) workdir;
              abs_target = abspath (cwd os) target_path
          in if \<not> startswith abs_target abs_workdir
             then (Inl (HTTPException 400 (u ''Path traversal detected'')), os)
             else if \<not> isfile os abs_target
             then (Inl (HTTPException 404 (u ''File does not exist'')), os)
             else
               (case os_remove os abs_target of
                  (Some e, os1) \<Rightarrow> (Inl e, os1)
                | (None, os1) \<Rightarrow> (Inr (DeleteOk (df_id req) (df_rel_path req)), os1)))"

definition delete_file :: "os_state \<Rightarrow> DeleteFileRequest \<Rightarrow> (pyexc + file_ok) \<times> os_state" where
  "delete_file os req = apfst file_handlers (delete_file_body os req)"

definition rename_file_body :: "os_state \<Rightarrow> RenameFileRequest \<Rightarrow> (pyexc + file_ok) \<times> os_state" where
  "rename_file_body os req =
     (let workdir = safe_dirname (rf_id req) in
      case safe_rel_path (rf_old_path req) of
        Inl e \<Rightarrow> (Inl e, os)
      | Inr old_rel \<Rightarrow>
          (case safe_rel_path (rf_new_path req) of
             Inl e \<Rightarrow> (Inl e, os)
           | Inr new_rel \<Rightarrow>
               let old_abs = path_join workdir old_rel;
                   new_abs = path_join workdir new_rel;
                   abs_workdir = abspath (cwd os) workdir
               in if \<not> startswith (abspath (cwd os) old_abs) abs_workdir
                     \<or> \<not> startswith (abspath (cwd os) new_abs) abs_workdir
                  then (Inl (HTTPException 400 (u ''Path traversal detected'')), os)
                  else if \<not> isfile os old_abs
                  then (Inl (HTTPException 404 (u ''Old file does not exist'')), os)
                  else
                    let target_dir = dirname new_abs in
                    (case makedirs os target_dir of
                       (Some e, os1) \<Rightarrow> (Inl e, os1)
                     | (None, os1) \<Rightarrow>
                         (case os_rename os1 old_abs new_abs of
                            (Some e, os2) \<Rightarrow> (Inl e, os2)
                          | (None, os2) \<Rightarrow>
                              (Inr (RenameOk (rf_id req) (rf_old_path req) (rf_new_path req)),
                               os2)))))"

definition rename_file :: "os_state \<Rightarrow> RenameFileRequest \<Rightarrow> (pyexc + file_ok) \<times> os_state" where
  "rename_file os req = apfst file_handlers (rename_file_body os req)"

text \<open>\<^verbatim>\<open>read_file\<close> has only the \<^verbatim>\<open>except ValueError\<close> handler, so its
  \<^verbatim>\<open>HTTPException\<close>s reach the caller as raised.\<close>

definition read_file_body :: "os_state \<Rightarrow> pystr \<Rightarrow> pystr \<Rightarrow> pyexc + pystr" where
  "read_file_body os sid rel =
     (let workdir = safe_dirname sid in
      case safe_rel_path rel of
        Inl e \<Rightarrow> Inl e
      | Inr rel_path \<Rightarrow>
          let file_path = path_join workdir rel_path in
          if \<not> startswith (abspath (cwd os) file_path) (abspath (cwd os) workdir)
          then Inl (HTTPException 400 (u ''Path traversal detected''))
          else if \<not> isfile os file_path
          then Inl (HTTPException 404 (u ''File does not exist''))
          else open_read os file_path)"

definition read_file :: "os_state \<Rightarrow> pystr \<Rightarrow> pystr \<Rightarrow> pyexc + pystr" where
  "read_file os sid rel =
     (case read_file_body os sid rel of
        Inr content \<Rightarrow> Inr content
      | Inl e \<Rightarrow> if is_ValueError e then Inl (HTTPException 400 (exc_str e)) else Inl e)"

text \<open>
  The check as the specification words it, for comparison with the one the endpoints
  make: the joined path, canonicalised by the file system (links and \<^verbatim>\<open>..\<close>
  resolved), lies outside the canonicalised session root.
\<close>

definition resolves_outside_root :: "os_state \<Rightarrow> pystr \<Rightarrow> pystr \<Rightarrow> bool" where
  "resolves_outside_root os session_id rel_path =
     (case (resolve os (safe_dirname session_id),
            resolve os (path_join (safe_dirname session_id) (normpath rel_path))) of
        (Some root_dir, Some target) \<Rightarrow> \<not> prefix root_dir target
      | _ \<Rightarrow> True)"

section \<open>The command runner\<close>

record RunCommandRequest =
  rc_id :: pystr
  rc_cmd :: pystr

record run_response =
  status_code :: nat
  stdout :: pystr
  stderr :: pystr
  resp_id :: pystr

text \<open>
  \<^verbatim>\<open>subprocess.run(cmd, stdout=PIPE, stderr=PIPE, shell=True, cwd=workdir, timeout=30,
  check=False, text=True)\<close>, after \<^verbatim>\<open>Lib/subprocess.py\<close>:

  \<^item> \<^verbatim>\<open>Popen\<close> starts \<^verbatim>\<open>/bin/sh -c cmd\<close> in \<^verbatim>\<open>workdir\<close>, or raises (the directory is
    gone, the command holds a NUL) and no process exists;
  \<^item> \<^verbatim>\<open>communicate(timeout=30)\<close> returns the two decoded streams once the shell has
    ended and been waited for;
  \<^item> on \<^verbatim>\<open>TimeoutExpired\<close> the library calls \<^verbatim>\<open>process.kill()\<close> (\<^verbatim>\<open>SIGKILL\<close> to the
    shell), \<^verbatim>\<open>process.wait()\<close>, and re-raises;
  \<^item> on any other exception of \<^verbatim>\<open>communicate\<close> (the output is not valid text) it calls
    \<^verbatim>\<open>process.kill()\<close> and re-raises, and leaving the \<^verbatim>\<open>with Popen\<close> block waits for
    the process.

  What the command does is given from outside as a \<open>proc_behaviour\<close>; the calls made on
  the process are recorded as events. \<open>RunsOver tb\<close> carries the text that
  \<^verbatim>\<open>traceback.format_exc()\<close> prints for the \<^verbatim>\<open>TimeoutExpired\<close>.
\<close>

datatype proc_behaviour =
    SpawnFails pyexc
  | Exits pystr pystr
  | RunsOver pystr
  | BadOutput pyexc

datatype proc_event = Popen pystr pystr | Kill | Wait

definition TimeoutExpired :: "pystr \<Rightarrow> pystr \<Rightarrow> pyexc" where
  "TimeoutExpired cmd tb =
     PyExc OtherException (u ''TimeoutExpired'')
       (u ''Command '' @ [39] @ cmd @ [39] @ u '' timed out after 30 seconds'') tb"

definition subprocess_run ::
  "(pystr \<Rightarrow> pystr \<Rightarrow> proc_behaviour) \<Rightarrow> pystr \<Rightarrow> pystr
     \<Rightarrow> (pyexc + pystr \<times> pystr) \<times> proc_event list"
where
  "subprocess_run sh cmd workdir =
     (case sh cmd workdir of
        SpawnFails e \<Rightarrow> (Inl e, [])
      | Exits out err \<Rightarrow> (Inr (out, err), [Popen cmd workdir, Wait])
      | RunsOver tb \<Rightarrow> (Inl (TimeoutExpired cmd tb), [Popen cmd workdir, Kill, Wait])
      | BadOutput e \<Rightarrow> (Inl e, [Popen cmd workdir, Kill, Wait]))"

definition run_command ::
  "(pystr \<Rightarrow> pystr \<Rightarrow> proc_behaviour) \<Rightarrow> os_state \<Rightarrow> RunCommandRequest
     \<Rightarrow> (pyexc + run_response) \<times> proc_event list"
where
  "run_command sh os req =
     (let session_id = rc_id req;
          cmd = rc_cmd req;
          workdir = safe_dirname session_id
      in if \<not> isdir os workdir
         then (Inl (HTTPException 400 (u ''Session does not exist'')), [])
         else
           (case subprocess_run sh cmd workdir of
              (Inr (out, err), evs) \<Rightarrow>
                (Inr \<lparr>status_code = 200, stdout = out, stderr = err, resp_id = session_id\<rparr>,
                 evs)
            | (Inl e, evs) \<Rightarrow>
                if is_Exception e
                then (Inr \<lparr>status_code = 500, stdout = [],
                           stderr = u ''Exception running command: '' @ exc_str e
                                    @ [10] @ format_exc e,
                           resp_id = session_id\<rparr>, evs)
                else (Inl e, evs)))"

section \<open>Python values\<close>

text \<open>
  The values of the literal grammar (\<^verbatim>\<open>None\<close>, booleans, integers, floating-point
  numbers, strings, bytes, lists, tuples, sets, dictionaries) and opaque objects: functions,
  instances of classes, and the values whose comparison does not go by value alone
  (\<^verbatim>\<open>nan\<close>, complex numbers, \<^verbatim>\<open>Ellipsis\<close>). A floating-point number is the real number
  it stands for, or an infinity; \<^verbatim>\<open>0.0\<close> and \<^verbatim>\<open>-0.0\<close>, which are equal, are one value.
  The elements of a set and the items of a dictionary are listed in iteration order.
\<close>

datatype pyfloat = Finite real | PosInf | NegInf

datatype pyval =
    PNone
  | PBool bool
  | PInt int
  | PFloat pyfloat
  | PStr pystr
  | PBytes "nat list"
  | PList "pyval list"
  | PTuple "pyval list"
  | PSet "pyval list"
  | PDict "(pyval \<times> pyval) list"
  | PObj nat

text \<open>The number a value is, if it is one: \<^verbatim>\<open>bool\<close> is a subclass of \<^verbatim>\<open>int\<close>, and
  numbers of different types compare by their exact values.\<close>

fun num :: "pyval \<Rightarrow> pyfloat option" where
  "num (PBool b) = Some (Finite (if b then 1 else 0))"
| "num (PInt i) = Some (Finite (of_int i))"
| "num (PFloat f) = Some f"
| "num _ = None"

text \<open>
  \<^verbatim>\<open>a == b\<close> on values without objects: numbers by value, strings and bytes by
  content, lists and tuples element by element, sets and dictionaries by size and
  membership; values of different kinds are unequal. The recursion is on the left
  operand: \<open>map plain_eq xs\<close> lists, for each element of \<open>xs\<close>, the test for being equal
  to it.
\<close>

definition all_pairwise :: "('a \<Rightarrow> bool) list \<Rightarrow> 'a list \<Rightarrow> bool" where
  "all_pairwise ps ys = (length ps = length ys \<and> list_all (\<lambda>(p, y). p y) (zip ps ys))"

primrec plain_eq :: "pyval \<Rightarrow> pyval \<Rightarrow> bool" where
  "plain_eq PNone = (\<lambda>b. b = PNone)"
| "plain_eq (PBool x) = (\<lambda>b. num b = Some (Finite (if x then 1 else 0)))"
| "plain_eq (PInt i) = (\<lambda>b. num b = Some (Finite (of_int i)))"
| "plain_eq (PFloat f) = (\<lambda>b. num b = Some f)"
| "plain_eq (PStr s) = (\<lambda>b. b = PStr s)"
| "plain_eq (PBytes s) = (\<lambda>b. b = PBytes s)"
| "plain_eq (PList xs) =
     (\<lambda>b. case b of PList ys \<Rightarrow> all_pairwise (map plain_eq xs) ys | _ \<Rightarrow> False)"
| "plain_eq (PTuple xs) =
     (\<lambda>b. case b of PTuple ys \<Rightarrow> all_pairwise (map plain_eq xs) ys | _ \<Rightarrow> False)"
| "plain_eq (PSet xs) =
     (\<lambda>b. case b of
             PSet ys \<Rightarrow> length xs = length ys \<and> list_all (\<lambda>p. list_ex p ys) (map plain_eq xs)
           | _ \<Rightarrow> False)"
| "plain_eq (PDict kvs) =
     (\<lambda>b. case b of
             PDict kvs' \<Rightarrow>
               length kvs = length kvs'
               \<and> list_all (\<lambda>(pk, pv). list_ex (\<lambda>(k', v'). pk k' \<and> pv v') kvs')
                    (map (map_prod plain_eq plain_eq) kvs)
           | _ \<Rightarrow> False)"
| "plain_eq (PObj n) = (\<lambda>b. False)"

text \<open>
  The values on which \<^verbatim>\<open>==\<close> runs no code but the interpreter's own: no object
  anywhere in them, and sets and dictionaries as Python builds them, with hashable
  elements and keys of which no two are equal.
\<close>

primrec hashable :: "pyval \<Rightarrow> bool" where
  "hashable PNone = True"
| "hashable (PBool x) = True"
| "hashable (PInt i) = True"
| "hashable (PFloat f) = True"
| "hashable (PStr s) = True"
| "hashable (PBytes s) = True"
| "hashable (PList xs) = False"
| "hashable (PTuple xs) = list_all (\<lambda>h. h) (map hashable xs)"
| "hashable (PSet xs) = False"
| "hashable (PDict kvs) = False"
| "hashable (PObj n) = False"

fun distinct_eq :: "pyval list \<Rightarrow> bool" where
  "distinct_eq [] = True"
| "distinct_eq (x # xs) = (\<not> list_ex (plain_eq x) xs \<and> distinct_eq xs)"

primrec plain :: "pyval \<Rightarrow> bool" where
  "plain PNone = True"
| "plain (PBool x) = True"
| "plain (PInt i) = True"
| "plain (PFloat f) = True"
| "plain (PStr s) = True"
| "plain (PBytes s) = True"
| "plain (PList xs) = list_all (\<lambda>h. h) (map plain xs)"
| "plain (PTuple xs) = list_all (\<lambda>h. h) (map plain xs)"
| "plain (PSet xs) =
     (list_all (\<lambda>h. h) (map plain xs) \<and> list_all hashable xs \<and> distinct_eq xs)"
| "plain (PDict kvs) =
     (list_all (\<lambda>(pk, pv). pk \<and> pv) (map (map_prod plain plain) kvs)
      \<and> list_all hashable (map fst kvs) \<and> distinct_eq (map fst kvs))"
| "plain (PObj n) = False"

text \<open>\<^verbatim>\<open>type(v).__name__\<close> for the built-in types.\<close>

fun type_name :: "pyval \<Rightarrow> pystr" where
  "type_name PNone = u ''NoneType''"
| "type_name (PBool _) = u ''bool''"
| "type_name (PInt _) = u ''int''"
| "type_name (PFloat _) = u ''float''"
| "type_name (PStr _) = u ''str''"
| "type_name (PBytes _) = u ''bytes''"
| "type_name (PList _) = u ''list''"
| "type_name (PTuple _) = u ''tuple''"
| "type_name (PSet _) = u ''set''"
| "type_name (PDict _) = u ''dict''"
| "type_name (PObj _) = u ''object''"

section \<open>The regular expression of the keyword form\<close>

text \<open>
  A backtracking matcher for the constructs the pattern of \<^verbatim>\<open>_parse_kw\<close> uses:
  a literal character, greedy and lazy repetition of a character class, a group, a
  sequence, an alternative, a lookahead and \<^verbatim>\<open>$\<close>. \<open>rx_match s r (i, g)\<close> lists, in
  the order in which Python's engine tries them, the positions (and groups) at which a
  match of \<open>r\<close> that starts at \<open>i\<close> can end: the head of the list is the match
  \<^verbatim>\<open>re\<close> reports. The text and the pattern are \<^verbatim>\<open>str\<close>, so the classes are the
  Unicode ones.
\<close>

datatype rx =
    Chr nat
  | Greedy0 "nat \<Rightarrow> bool"
  | Greedy1 "nat \<Rightarrow> bool"
  | Lazy1 "nat \<Rightarrow> bool"
  | Group nat rx
  | Cat rx rx
  | Alt rx rx
  | Ahead rx
  | Eos

type_synonym rx_state = "nat \<times> (nat \<times> nat \<times> nat) list"

definition run_length :: "(nat \<Rightarrow> bool) \<Rightarrow> pystr \<Rightarrow> nat \<Rightarrow> nat" where
  "run_length P s i = length (takeWhile P (drop i s))"

fun rx_match :: "pystr \<Rightarrow> rx \<Rightarrow> rx_state \<Rightarrow> rx_state list" where
  "rx_match s (Chr c) (i, g) = (if i < length s \<and> s ! i = c then [(Suc i, g)] else [])"
| "rx_match s (Greedy0 P) (i, g) = map (\<lambda>k. (i + k, g)) (rev [0..<Suc (run_length P s i)])"
| "rx_match s (Greedy1 P) (i, g) = map (\<lambda>k. (i + k, g)) (rev [1..<Suc (run_length P s i)])"
| "rx_match s (Lazy1 P) (i, g) = map (\<lambda>k. (i + k, g)) [1..<Suc (run_length P s i)]"
| "rx_match s (Group n r) (i, g) = map (\<lambda>(j, g'). (j, (n, i, j) # g')) (rx_match s r (i, g))"
| "rx_match s (Cat a b) st = concat (map (rx_match s b) (rx_match s a st))"
| "rx_match s (Alt a b) st = rx_match s a st @ rx_match s b st"
| "rx_match s (Ahead r) st = (if rx_match s r st = [] then [] else [st])"
| "rx_match s Eos (i, g) =
     (if i = length s \<or> (Suc i = length s \<and> s ! i = 10) then [(i, g)] else [])"

text \<open>
  \<^verbatim>\<open>\w\<close> is an underscore or a character for which \<^verbatim>\<open>str.isalnum()\<close> holds: below
  128 the ASCII letters and digits, above it what the Unicode database of the
  interpreter says (\<open>alnum\<close>, given from outside). \<^verbatim>\<open>\s\<close> is the Unicode white space,
  which is also what \<^verbatim>\<open>str.strip()\<close> removes. \<^verbatim>\<open>.\<close> is every character but the line
  feed.
\<close>

definition is_word :: "(nat \<Rightarrow> bool) \<Rightarrow> nat \<Rightarrow> bool" where
  "is_word alnum c =
     (c = 95 \<or>
      (if c < 128 then (48 \<le> c \<and> c \<le> 57) \<or> (65 \<le> c \<and> c \<le> 90) \<or> (97 \<le> c \<and> c \<le> 122)
       else alnum c))"

definition is_space :: "nat \<Rightarrow> bool" where
  "is_space c =
     ((9 \<le> c \<and> c \<le> 13) \<or> (28 \<le> c \<and> c \<le> 32) \<or> c = 133 \<or> c = 160 \<or> c = 5760
      \<or> (8192 \<le> c \<and> c \<le> 8202) \<or> c = 8232 \<or> c = 8233 \<or> c = 8239 \<or> c = 8287
      \<or> c = 12288)"

definition is_dot :: "nat \<Rightarrow> bool" where
  "is_dot c = (c \<noteq> 10)"

definition strip :: "pystr \<Rightarrow> pystr" where
  "strip s = rev (dropWhile is_space (rev (dropWhile is_space s)))"

text \<open>\<^verbatim>\<open>r"(\w+)\s*=\s*(.+?)(?=,\s*\w+\s*=|$)"\<close>\<close>

definition kw_pattern :: "(nat \<Rightarrow> bool) \<Rightarrow> rx" where
  "kw_pattern alnum =
     Cat (Group 1 (Greedy1 (is_word alnum)))
    (Cat (Greedy0 is_space)
    (Cat (Chr (ch CHR ''=''))
    (Cat (Greedy0 is_space)
    (Cat (Group 2 (Lazy1 is_dot))
         (Ahead (Alt (Cat (Chr (ch CHR '',''))
                     (Cat (Greedy0 is_space)
                     (Cat (Greedy1 (is_word alnum))
                     (Cat (Greedy0 is_space)
                          (Chr (ch CHR ''=''))))))
                     Eos))))))"

text \<open>
  \<^verbatim>\<open>re.finditer(pattern, s)\<close>: the leftmost match from each position, the next search
  starting where the last match ended (one further after an empty match, which this
  pattern never has). A match is its start, its end and its groups.
\<close>

function finditer :: "rx \<Rightarrow> pystr \<Rightarrow> nat \<Rightarrow> (nat \<times> nat \<times> (nat \<times> nat \<times> nat) list) list" where
  "finditer r s pos =
     (if length s < pos then []
      else (case rx_match s r (pos, []) of
              [] \<Rightarrow> finditer r s (Suc pos)
            | (e, g) # _ \<Rightarrow> (pos, e, g) # finditer r s (max e (Suc pos))))"
  by pat_completeness auto
termination
  by (relation "measure (\<lambda>(r, s, pos). Suc (length s) - pos)") auto

declare finditer.simps [simp del]

text \<open>\<^verbatim>\<open>m.group(n)\<close> for a group that took part in the match.\<close>

definition group_text :: "pystr \<Rightarrow> (nat \<times> nat \<times> (nat \<times> nat \<times> nat) list) \<Rightarrow> nat \<Rightarrow> pystr" where
  "group_text s m n =
     (case map_of (snd (snd m)) n of
        Some (a, b) \<Rightarrow> take (b - a) (drop a s)
      | None \<Rightarrow> [])"

section \<open>The worker: one case in its own process\<close>

text \<open>
  What the Python interpreter and the operating system do in a worker is given from
  outside, as the record \<open>py_runtime\<close>: \<^verbatim>\<open>resource.setrlimit\<close> (it may raise),
  \<^verbatim>\<open>exec(code, {})\<close> (the namespace it leaves, or the exception), \<^verbatim>\<open>eval(expr,
  namespace)\<close>, \<^verbatim>\<open>inspect.getfullargspec(f).args\<close>, the call \<^verbatim>\<open>f(*args)\<close>,
  \<^verbatim>\<open>ast.literal_eval\<close>, \<^verbatim>\<open>str.isalnum\<close> above ASCII, and \<^verbatim>\<open>a == b\<close> when an operand is
  or holds an object (the value that the \<^verbatim>\<open>__eq__\<close> in charge returns, which need not
  be a boolean, or the exception it raises). Every property below holds for every such
  runtime. A case is a dictionary from strings to strings, as the signature of
  \<^verbatim>\<open>evaluate_cases\<close> declares; an exception is what the handlers read of it, its
  class, \<^verbatim>\<open>str(e)\<close> and its traceback.
\<close>

type_synonym io_case = "pystr \<rightharpoonup> pystr"

type_synonym namespace = "pystr \<rightharpoonup> pyval"

datatype rlimit = RLIMIT_AS | RLIMIT_CPU

record py_runtime =
  setrlimit :: "rlimit \<Rightarrow> int \<times> int \<Rightarrow> pyexc option"
  py_exec :: "pystr \<Rightarrow> pyexc + namespace"
  py_eval :: "pystr \<Rightarrow> namespace \<Rightarrow> pyexc + pyval"
  getfullargspec_args :: "pyval \<Rightarrow> pyexc + pystr list"
  py_call :: "pyval \<Rightarrow> pyval list \<Rightarrow> pyexc + pyval"
  literal_eval :: "pystr \<Rightarrow> pyexc + pyval"
  unicode_alnum :: "nat \<Rightarrow> bool"
  obj_eq :: "pyval \<Rightarrow> pyval \<Rightarrow> pyexc + pyval"

text \<open>
  The worker's observable steps, in the order in which it takes them. \<open>ExecCode\<close>,
  \<open>EvalExpr\<close>, \<open>CallFunc\<close> and \<open>CompareEq\<close> run text or code that the caller supplied.
\<close>

datatype event =
    SetRLimit rlimit int int
  | ExecCode pystr
  | EvalExpr pystr
  | CallFunc pyval "pyval list"
  | CompareEq pyval pyval

fun runs_user_code :: "event \<Rightarrow> bool" where
  "runs_user_code (SetRLimit _ _ _) = False"
| "runs_user_code _ = True"

type_synonym 'a eff = "(pyexc + 'a) \<times> event list"

definition then_do :: "'a eff \<Rightarrow> ('a \<Rightarrow> 'b eff) \<Rightarrow> 'b eff" where
  "then_do m f =
     (case m of
        (Inl e, t) \<Rightarrow> (Inl e, t)
      | (Inr x, t) \<Rightarrow> (case f x of (r, t') \<Rightarrow> (r, t @ t')))"

definition step :: "event \<Rightarrow> pyexc + 'a \<Rightarrow> 'a eff" where
  "step ev r = (r, [ev])"

definition quiet :: "pyexc + 'a \<Rightarrow> 'a eff" where
  "quiet r = (r, [])"

definition raised :: "pyexc option \<Rightarrow> pyexc + unit" where
  "raised r = (case r of None \<Rightarrow> Inr () | Some e \<Rightarrow> Inl e)"

text \<open>\<^verbatim>\<open>case[key]\<close> raises \<^verbatim>\<open>KeyError\<close> for a missing key; \<^verbatim>\<open>case.get(key)\<close> gives
  \<^verbatim>\<open>None\<close>.\<close>

definition getitem :: "io_case \<Rightarrow> pystr \<Rightarrow> pyexc + pystr" where
  "getitem c key = (case c key of None \<Rightarrow> Inl (KeyError key) | Some v \<Rightarrow> Inr v)"

definition get_or_none :: "io_case \<Rightarrow> pystr \<Rightarrow> pyval" where
  "get_or_none c key = (case c key of None \<Rightarrow> PNone | Some v \<Rightarrow> PStr v)"

text \<open>\<^verbatim>\<open>_parse_kw\<close>: a pair whose value is no literal is skipped (\<^verbatim>\<open>except Exception:
  pass\<close>); a later pair with the same name replaces the earlier value.\<close>

fun parse_kw_loop ::
  "(pystr \<Rightarrow> pyexc + pyval) \<Rightarrow> (pystr \<times> pystr) list \<Rightarrow> (pystr \<times> pyval) list
   \<Rightarrow> pyexc + (pystr \<times> pyval) list" where
  "parse_kw_loop lit [] out = Inr out"
| "parse_kw_loop lit ((k, v) # ms) out =
     (case lit v of
        Inr x \<Rightarrow> parse_kw_loop lit ms (AList.update k x out)
      | Inl e \<Rightarrow> if is_Exception e then parse_kw_loop lit ms out else Inl e)"

definition kw_pairs :: "(nat \<Rightarrow> bool) \<Rightarrow> pystr \<Rightarrow> (pystr \<times> pystr) list" where
  "kw_pairs alnum input_str =
     map (\<lambda>m. (strip (group_text input_str m 1), strip (group_text input_str m 2)))
       (finditer (kw_pattern alnum) input_str 0)"

definition parse_kw :: "py_runtime \<Rightarrow> pystr \<Rightarrow> pyexc + (pystr \<times> pyval) list" where
  "parse_kw rt input_str =
     parse_kw_loop (literal_eval rt) (kw_pairs (unicode_alnum rt) input_str) []"

text \<open>
  What the keyword form binds, said directly, for comparison with the loop: the pairs
  of the input whose value text is a literal, each with the value of that literal, in
  the order of the input.
\<close>

definition literal_pairs :: "py_runtime \<Rightarrow> pystr \<Rightarrow> (pystr \<times> pyval) list" where
  "literal_pairs rt input_str =
     List.map_filter
       (\<lambda>(k, raw). case literal_eval rt raw of Inr v \<Rightarrow> Some (k, v) | Inl e \<Rightarrow> None)
       (kw_pairs (unicode_alnum rt) input_str)"

definition parse_list :: "py_runtime \<Rightarrow> pystr \<Rightarrow> pyexc + pyval list" where
  "parse_list rt input_str =
     (case literal_eval rt (strip input_str) of
        Inr v \<Rightarrow> Inr [v]
      | Inl e \<Rightarrow> if is_Exception e then Inr [] else Inl e)"

text \<open>\<^verbatim>\<open>[params[a] for a in arg_names]\<close>: the first missing name raises
  \<^verbatim>\<open>KeyError\<close>.\<close>

fun lookup_all :: "(pystr \<times> pyval) list \<Rightarrow> pystr list \<Rightarrow> pyexc + pyval list" where
  "lookup_all params [] = Inr []"
| "lookup_all params (a # as) =
     (case map_of params a of
        None \<Rightarrow> Inl (KeyError a)
      | Some v \<Rightarrow>
          (case lookup_all params as of
             Inl e \<Rightarrow> Inl e
           | Inr vs \<Rightarrow> Inr (v # vs)))"

text \<open>The result dictionary: \<^verbatim>\<open>passed\<close> is whatever \<^verbatim>\<open>got == expected\<close> gave.\<close>

record worker_result =
  passed :: pyval
  got :: pyval
  expected :: pyval
  error :: "pystr option"

text \<open>Lines 132 to 136 of \<^verbatim>\<open>src/main.py\<close>: the worker limits itself.\<close>

definition set_limits :: "py_runtime \<Rightarrow> int \<Rightarrow> int \<Rightarrow> unit eff" where
  "set_limits rt mem_limit_mb cpu_seconds =
     (let soft = mem_limit_mb * 1024 * 1024; hard = mem_limit_mb * 1024 * 1024 in
      then_do (step (SetRLimit RLIMIT_AS soft hard)
                 (raised (setrlimit rt RLIMIT_AS (soft, hard)))) (\<lambda>_.
      step (SetRLimit RLIMIT_CPU cpu_seconds (cpu_seconds + 1))
        (raised (setrlimit rt RLIMIT_CPU (cpu_seconds, cpu_seconds + 1)))))"

text \<open>\<^verbatim>\<open>arg_spec.args[1:] if arg_spec.args and arg_spec.args[0] == "self" else
  arg_spec.args\<close>\<close>

definition declared_arg_names :: "pystr list \<Rightarrow> pystr list" where
  "declared_arg_names spec_args =
     (if spec_args \<noteq> [] \<and> hd spec_args = u ''self'' then tl spec_args else spec_args)"

text \<open>Lines 139 to 175: load the code, parse the input, resolve the entry point, bind
  the arguments, call. The result is the namespace and the value the entry point
  returned.\<close>

definition load_and_call ::
  "py_runtime \<Rightarrow> pystr \<Rightarrow> pystr \<Rightarrow> io_case \<Rightarrow> (namespace \<times> pyval) eff" where
  "load_and_call rt code entry_point c =
     then_do (step (ExecCode code) (py_exec rt code)) (\<lambda>exec_globals.
     then_do (quiet (getitem c (u ''input''))) (\<lambda>input_str.
     then_do (quiet (parse_kw rt input_str)) (\<lambda>params.
     then_do (quiet (if params = [] then parse_list rt input_str else Inr [])) (\<lambda>list_params.
     then_do (step (EvalExpr entry_point) (py_eval rt entry_point exec_globals)) (\<lambda>func.
     then_do (quiet (getfullargspec_args rt func)) (\<lambda>spec_args.
     then_do (quiet (if params \<noteq> [] then lookup_all params (declared_arg_names spec_args)
                     else Inr list_params)) (\<lambda>args.
     then_do (step (CallFunc func args) (py_call rt func args)) (\<lambda>got_value.
     quiet (Inr (exec_globals, got_value))))))))))"

definition invoke_entry ::
  "py_runtime \<Rightarrow> pystr \<Rightarrow> pystr \<Rightarrow> io_case \<Rightarrow> int \<Rightarrow> int \<Rightarrow> (namespace \<times> pyval) eff" where
  "invoke_entry rt code entry_point c mem_limit_mb cpu_seconds =
     then_do (set_limits rt mem_limit_mb cpu_seconds) (\<lambda>_.
       load_and_call rt code entry_point c)"

text \<open>Lines 177 to 180: \<^verbatim>\<open>literal_eval(case["output"])\<close>, and on any \<^verbatim>\<open>Exception\<close>
  \<^verbatim>\<open>eval(case["output"], exec_globals)\<close>.\<close>

definition expected_value :: "py_runtime \<Rightarrow> io_case \<Rightarrow> namespace \<Rightarrow> pyval eff" where
  "expected_value rt c exec_globals =
     (case (case getitem c (u ''output'') of Inl e \<Rightarrow> Inl e | Inr out \<Rightarrow> literal_eval rt out) of
        Inr v \<Rightarrow> quiet (Inr v)
      | Inl e \<Rightarrow>
          if is_Exception e
          then then_do (quiet (getitem c (u ''output''))) (\<lambda>out.
                 step (EvalExpr out) (py_eval rt out exec_globals))
          else quiet (Inl e))"

text \<open>
  \<^verbatim>\<open>got == expected\<close>: on plain values the interpreter's own comparison, a boolean;
  otherwise the \<^verbatim>\<open>__eq__\<close> of an object decides, and the runtime says what it returns
  or raises.
\<close>

definition py_eq :: "py_runtime \<Rightarrow> pyval \<Rightarrow> pyval \<Rightarrow> pyval eff" where
  "py_eq rt a b =
     (if plain a \<and> plain b then quiet (Inr (PBool (plain_eq a b)))
      else step (CompareEq a b) (obj_eq rt a b))"

definition run_single_case_body ::
  "py_runtime \<Rightarrow> pystr \<Rightarrow> pystr \<Rightarrow> io_case \<Rightarrow> int \<Rightarrow> int \<Rightarrow> worker_result eff" where
  "run_single_case_body rt code entry_point c mem_limit_mb cpu_seconds =
     then_do (invoke_entry rt code entry_point c mem_limit_mb cpu_seconds)
       (\<lambda>(exec_globals, got_value).
     then_do (expected_value rt c exec_globals) (\<lambda>expected_value.
     then_do (py_eq rt got_value expected_value) (\<lambda>verdict.
     quiet (Inr \<lparr>passed = verdict, got = got_value,
                  expected = expected_value, error = None\<rparr>))))"

text \<open>\<^verbatim>\<open>_run_single_case\<close>: the body under its \<^verbatim>\<open>except Exception as e\<close>. An exception
  that is no \<^verbatim>\<open>Exception\<close> leaves the function.\<close>

definition run_single_case ::
  "py_runtime \<Rightarrow> pystr \<Rightarrow> pystr \<Rightarrow> io_case \<Rightarrow> int \<Rightarrow> int \<Rightarrow> worker_result eff" where
  "run_single_case rt code entry_point c mem_limit_mb cpu_seconds =
     (case run_single_case_body rt code entry_point c mem_limit_mb cpu_seconds of
        (Inr r, t) \<Rightarrow> (Inr r, t)
      | (Inl e, t) \<Rightarrow>
          if is_Exception e
          then (Inr \<lparr>passed = PBool False, got = PNone,
                     expected = get_or_none c (u ''output''),
                     error = Some (exc_name e @ u '': '' @ exc_str e @ [10] @ format_exc e)\<rparr>,
                t)
          else (Inl e, t))"

section \<open>The orchestrator\<close>

text \<open>
  What happens to the worker of case \<open>i\<close> is given from outside:

  \<^item> \<open>Completes\<close>: it ends within the per-case timeout, and the future holds what
    \<^verbatim>\<open>_run_single_case\<close> returned, or raises in the parent the exception that left it
    (the pool's worker loop catches \<^verbatim>\<open>BaseException\<close> and sends it back);
  \<^item> \<open>TimesOut\<close>: \<^verbatim>\<open>fut.result(timeout=timeout)\<close> raises \<^verbatim>\<open>TimeoutError\<close>, and the
    worker ends later, or never started and is cancelled;
  \<^item> \<open>Hangs\<close>: \<^verbatim>\<open>fut.result\<close> raises \<^verbatim>\<open>TimeoutError\<close> and the worker never ends
    (\<^verbatim>\<open>fut.cancel()\<close> does nothing to a running call, and a call that sleeps or blocks
    uses no CPU time);
  \<^item> \<open>Breaks e\<close>: the pool fails to deliver and \<^verbatim>\<open>fut.result\<close> raises \<open>e\<close> (a worker
    process died, the pool is broken).

  Workers finish in any order; the loop asks the futures in the order of submission.
  An exception that left the worker is raised in the parent as it was, which is what
  happens to the built-in exceptions. The result travels to the parent pickled: plain
  values arrive as they were sent;
  for a result that holds an object, \<open>pickled\<close> says what arrives (the object's
  \<^verbatim>\<open>__reduce__\<close> decides), or which exception the future raises instead.

  Leaving the \<^verbatim>\<open>with ProcessPoolExecutor\<close> block calls \<^verbatim>\<open>shutdown(wait=True)\<close>, which
  returns once every submitted call has ended: with a worker that never ends,
  \<^verbatim>\<open>evaluate_cases\<close> neither returns nor raises. That outcome is \<open>None\<close>.
\<close>

datatype worker_fate = Completes | TimesOut | Hangs | Breaks pyexc

record pool_env =
  fate :: "nat \<Rightarrow> worker_fate"
  runtime :: "nat \<Rightarrow> py_runtime"
  pickled :: "nat \<Rightarrow> worker_result \<Rightarrow> pyexc + worker_result"
  obj_and :: "pyval \<Rightarrow> pyval \<Rightarrow> pyexc + pyval"
  getenv_max_workers :: "pystr option"
  cpu_count :: "nat option"
  py_int :: "pystr \<Rightarrow> pyexc + int"
  submit_error :: "nat \<Rightarrow> pyexc option"

record case_result = worker_result +
  case_index :: nat
  input_text :: "pystr option"

text \<open>
  Line 218: \<^verbatim>\<open>max_workers or int(os.getenv("REPL_MAX_WORKERS", os.cpu_count() or
  4))\<close>, and the check that \<^verbatim>\<open>ProcessPoolExecutor(max_workers=...)\<close> makes. \<open>py_int\<close> is
  \<^verbatim>\<open>int\<close> on a string, which raises \<^verbatim>\<open>ValueError\<close> for a text that is no number.
\<close>

definition env_workers :: "pool_env \<Rightarrow> pyexc + int" where
  "env_workers env =
     (case getenv_max_workers env of
        Some s \<Rightarrow> py_int env s
      | None \<Rightarrow>
          Inr (case cpu_count env of
                 Some n \<Rightarrow> if n = 0 then 4 else int n
               | None \<Rightarrow> 4))"

definition pool_size :: "pool_env \<Rightarrow> int option \<Rightarrow> pyexc + int" where
  "pool_size env max_workers =
     (case (case max_workers of
              Some n \<Rightarrow> if n = 0 then env_workers env else Inr n
            | None \<Rightarrow> env_workers env) of
        Inl e \<Rightarrow> Inl e
      | Inr n \<Rightarrow>
          if n \<le> 0 then Inl (ValueError (u ''max_workers must be greater than 0''))
          else Inr n)"

definition transfer :: "pool_env \<Rightarrow> nat \<Rightarrow> worker_result \<Rightarrow> pyexc + worker_result" where
  "transfer env idx r =
     (if plain (passed r) \<and> plain (got r) \<and> plain (expected r) then Inr r
      else pickled env idx r)"

definition fut_result ::
  "pool_env \<Rightarrow> pystr \<Rightarrow> pystr \<Rightarrow> int \<Rightarrow> int \<Rightarrow> nat \<Rightarrow> io_case \<Rightarrow> pyexc + worker_result" where
  "fut_result env code entry_point mem_limit_mb cpu_seconds idx c =
     (case fate env idx of
        TimesOut \<Rightarrow> Inl (PyExc IsTimeoutError (u ''TimeoutError'') [] [])
      | Hangs \<Rightarrow> Inl (PyExc IsTimeoutError (u ''TimeoutError'') [] [])
      | Breaks e \<Rightarrow> Inl e
      | Completes \<Rightarrow>
          (case fst (run_single_case (runtime env idx) code entry_point c
                       mem_limit_mb cpu_seconds) of
             Inl e \<Rightarrow> Inl e
           | Inr r \<Rightarrow> transfer env idx r))"

text \<open>The \<^verbatim>\<open>try\<close> around \<^verbatim>\<open>fut.result\<close>, lines 232 to 250.\<close>

definition await_result ::
  "pool_env \<Rightarrow> pystr \<Rightarrow> pystr \<Rightarrow> int \<Rightarrow> int \<Rightarrow> nat \<Rightarrow> io_case \<Rightarrow> pyexc + worker_result" where
  "await_result env code entry_point mem_limit_mb cpu_seconds idx c =
     (case fut_result env code entry_point mem_limit_mb cpu_seconds idx c of
        Inr result \<Rightarrow> Inr result
      | Inl e \<Rightarrow>
          if is_TimeoutError e
          then Inr \<lparr>passed = PBool False, got = PNone,
                    expected = get_or_none c (u ''output''),
                    error = Some (u ''Timeout'')\<rparr>
          else if is_Exception e
          then Inr \<lparr>passed = PBool False, got = PNone,
                    expected = get_or_none c (u ''output''),
                    error = Some (exc_name e @ u '': '' @ exc_str e)\<rparr>
          else Inl e)"

definition stamp :: "nat \<Rightarrow> io_case \<Rightarrow> worker_result \<Rightarrow> case_result" where
  "stamp idx c result =
     \<lparr>passed = passed result, got = got result, expected = expected result,
      error = error result, case_index = idx, input_text = c (u ''input'')\<rparr>"

text \<open>
  \<^verbatim>\<open>all_passed &= result["passed"]\<close> is \<^verbatim>\<open>all_passed = all_passed & result["passed"]\<close>:
  the bitwise operator. On two booleans it is their conjunction, a boolean; when an
  operand is an integer it is the bitwise AND of the integers (\<^verbatim>\<open>True\<close> counts as 1),
  an integer; on two sets it is their intersection; on other built-in values it raises
  \<^verbatim>\<open>TypeError\<close>; for an object, its \<^verbatim>\<open>__and__\<close> or \<^verbatim>\<open>__rand__\<close> decides (\<open>obj_and\<close>).
\<close>

fun as_int :: "pyval \<Rightarrow> int option" where
  "as_int (PBool b) = Some (if b then 1 else 0)"
| "as_int (PInt i) = Some i"
| "as_int _ = None"

fun is_bool :: "pyval \<Rightarrow> bool" where
  "is_bool (PBool _) = True"
| "is_bool _ = False"

fun set_items :: "pyval \<Rightarrow> pyval list option" where
  "set_items (PSet xs) = Some xs"
| "set_items _ = None"

fun is_obj :: "pyval \<Rightarrow> bool" where
  "is_obj (PObj _) = True"
| "is_obj _ = False"

definition py_and :: "pool_env \<Rightarrow> pyval \<Rightarrow> pyval \<Rightarrow> pyexc + pyval" where
  "py_and env a b =
     (case (as_int a, as_int b) of
        (Some i, Some j) \<Rightarrow>
          if is_bool a \<and> is_bool b then Inr (PBool (i = 1 \<and> j = 1)) else Inr (PInt (i AND j))
      | _ \<Rightarrow>
          if is_obj a \<or> is_obj b then obj_and env a b
          else (case (set_items a, set_items b) of
                  (Some xs, Some ys) \<Rightarrow>
                    if plain a \<and> plain b
                    then Inr (PSet (if length xs < length ys
                                    then filter (\<lambda>x. list_ex (plain_eq x) ys) xs
                                    else filter (\<lambda>y. list_ex (plain_eq y) xs) ys))
                    else obj_and env a b
                | _ \<Rightarrow>
                    Inl (TypeError (u ''unsupported operand type(s) for &=: '' @ [39]
                           @ type_name a @ [39] @ u '' and '' @ [39] @ type_name b @ [39]))))"

fun case_loop ::
  "pool_env \<Rightarrow> pystr \<Rightarrow> pystr \<Rightarrow> int \<Rightarrow> int \<Rightarrow> nat \<Rightarrow> io_case list \<Rightarrow> pyval
   \<Rightarrow> case_result list \<Rightarrow> pyexc + pyval \<times> case_result list" where
  "case_loop env code entry_point mem cpu idx [] all_passed case_results =
     Inr (all_passed, case_results)"
| "case_loop env code entry_point mem cpu idx (c # cs) all_passed case_results =
     (case await_result env code entry_point mem cpu idx c of
        Inl e \<Rightarrow> Inl e
      | Inr result \<Rightarrow>
          (case py_and env all_passed (passed result) of
             Inl e \<Rightarrow> Inl e
           | Inr all_passed' \<Rightarrow>
               case_loop env code entry_point mem cpu (Suc idx) cs
                 all_passed' (case_results @ [stamp idx c result])))"

text \<open>
  The list comprehension of lines 224 to 229 submits the cases in order; \<open>submitted\<close>
  is how many it submits before \<^verbatim>\<open>pool.submit\<close> raises (all of them, when it does
  not).
\<close>

definition submitted :: "pool_env \<Rightarrow> nat \<Rightarrow> nat" where
  "submitted env n =
     (case List.find (\<lambda>i. submit_error env i \<noteq> None) [0..<n] of
        None \<Rightarrow> n
      | Some i \<Rightarrow> i)"

definition evaluate_cases ::
  "pool_env \<Rightarrow> pystr \<Rightarrow> pystr \<Rightarrow> io_case list \<Rightarrow> int \<Rightarrow> int \<Rightarrow> int option
   \<Rightarrow> (pyexc + pyval \<times> case_result list) option" where
  "evaluate_cases env code entry_point io_cases mem_limit_mb cpu_seconds max_workers =
     (case pool_size env max_workers of
        Inl e \<Rightarrow> Some (Inl e)
      | Inr n \<Rightarrow>
          if list_ex (\<lambda>i. fate env i = Hangs) [0..<submitted env (length io_cases)]
          then None
          else (case submit_error env (submitted env (length io_cases)) of
                  Some e \<Rightarrow>
                    if submitted env (length io_cases) < length io_cases then Some (Inl e)
                    else Some (case_loop env code entry_point mem_limit_mb cpu_seconds
                                 0 io_cases (PBool True) [])
                | None \<Rightarrow>
                    Some (case_loop env code entry_point mem_limit_mb cpu_seconds
                            0 io_cases (PBool True) [])))"

section \<open>Example runtimes and states\<close>

text \<open>
  A runtime for the program of the specification's example,
  \<^verbatim>\<open>def add(a, b): return a + b\<close>: loading it binds \<^verbatim>\<open>add\<close> to a function object
  (here \<open>PObj 0\<close>) that has the parameters \<^verbatim>\<open>a\<close> and \<^verbatim>\<open>b\<close> and adds two integers.
  Its \<^verbatim>\<open>literal_eval\<close> reads decimal integer literals, raises \<^verbatim>\<open>SyntaxError\<close> for the
  empty text and \<^verbatim>\<open>ValueError\<close> otherwise, which is what \<^verbatim>\<open>ast.literal_eval\<close> does on
  the texts of the examples (the message of the exception is shortened); its \<^verbatim>\<open>eval\<close>
  looks a name up in the namespace; objects without an \<^verbatim>\<open>__eq__\<close> of their own
  compare by identity; its \<^verbatim>\<open>str.isalnum\<close> is that of Latin-1, and the examples hold
  no character above \<^verbatim>\<open>U+00FF\<close>.
\<close>

definition latin1_alnum :: "nat \<Rightarrow> bool" where
  "latin1_alnum c =
     (c = 170 \<or> c = 178 \<or> c = 179 \<or> c = 181 \<or> c = 185 \<or> c = 186
      \<or> (188 \<le> c \<and> c \<le> 190) \<or> (192 \<le> c \<and> c \<le> 214)
      \<or> (216 \<le> c \<and> c \<le> 246) \<or> (248 \<le> c \<and> c \<le> 255))"

definition is_digit :: "nat \<Rightarrow> bool" where
  "is_digit c = (48 \<le> c \<and> c \<le> 57)"

definition literal_eval_demo :: "pystr \<Rightarrow> pyexc + pyval" where
  "literal_eval_demo s =
     (if s = [] then Inl (PyExc OtherException (u ''SyntaxError'') (u ''invalid syntax'') [])
      else if list_all is_digit s \<and> (length s = 1 \<or> hd s \<noteq> 48)
      then Inr (PInt (int (foldl (\<lambda>n c. 10 * n + (c - 48)) 0 s)))
      else Inl (ValueError (u ''malformed node or string'')))"

definition name_lookup :: "pystr \<Rightarrow> namespace \<Rightarrow> pyexc + pyval" where
  "name_lookup expr ns =
     (case ns expr of
        Some v \<Rightarrow> Inr v
      | None \<Rightarrow> Inl (PyExc OtherException (u ''NameError'') expr []))"

definition add_code :: pystr where
  "add_code = u ''def add(a, b): return a + b''"

definition rt_add :: py_runtime where
  "rt_add =
     \<lparr>setrlimit = (\<lambda>_ _. None),
      py_exec = (\<lambda>code. if code = add_code then Inr [u ''add'' \<mapsto> PObj 0]
                          else Inl (PyExc OtherException (u ''SyntaxError'') (u ''invalid syntax'') [])),
      py_eval = name_lookup,
      getfullargspec_args =
        (\<lambda>f. if f = PObj 0 then Inr [u ''a'', u ''b'']
              else Inl (TypeError (u ''unsupported callable''))),
      py_call = (\<lambda>f args. case (f, args) of
                              (PObj 0, [PInt a, PInt b]) \<Rightarrow> Inr (PInt (a + b))
                            | _ \<Rightarrow> Inl (TypeError (u ''bad arguments''))),
      literal_eval = literal_eval_demo,
      unicode_alnum = latin1_alnum,
      obj_eq = (\<lambda>a b. Inr (PBool (a = b)))\<rparr>"

text \<open>
  A runtime for a method: the entry point \<^verbatim>\<open>Calc().add\<close> of

  \<^verbatim>\<open>class Calc:\<close>
  \<^verbatim>\<open>    def add(self, a, b): return a + b\<close>

  is a bound method (here \<open>PObj 2\<close>), for which \<^verbatim>\<open>inspect.getfullargspec\<close> lists
  \<^verbatim>\<open>self\<close> first.
\<close>

definition method_code :: pystr where
  "method_code = u ''class Calc:'' @ [10] @ u ''    def add(self, a, b): return a + b'' @ [10]"

definition rt_method :: py_runtime where
  "rt_method =
     rt_add\<lparr>py_exec := (\<lambda>code. if code = method_code then Inr [u ''Calc'' \<mapsto> PObj 3]
                                else Inl (PyExc OtherException (u ''SyntaxError'')
                                            (u ''invalid syntax'') [])),
            py_eval := (\<lambda>expr ns. if expr = u ''Calc().add'' \<and> ns (u ''Calc'') = Some (PObj 3)
                                   then Inr (PObj 2) else name_lookup expr ns),
            getfullargspec_args :=
              (\<lambda>f. if f = PObj 2 then Inr [u ''self'', u ''a'', u ''b'']
                    else Inl (TypeError (u ''unsupported callable''))),
            py_call := (\<lambda>f args. case args of
                                    [PInt a, PInt b] \<Rightarrow>
                                      if f = PObj 2 then Inr (PInt (a + b))
                                      else Inl (TypeError (u ''bad arguments''))
                                  | _ \<Rightarrow> Inl (TypeError (u ''bad arguments'')))\<rparr>"

text \<open>
  A runtime for a program whose result is equal to everything:

  \<^verbatim>\<open>class Anything:\<close>
  \<^verbatim>\<open>    def __eq__(self, other): return True\<close>
  \<^verbatim>\<open>def add(a, b): return Anything()\<close>

  The call returns an instance (here \<open>PObj 2\<close>), and \<^verbatim>\<open>instance == x\<close> is \<^verbatim>\<open>True\<close>.
\<close>

definition any_code :: pystr where
  "any_code = u ''class Anything:'' @ [10] @ u ''    def __eq__(self, other): return True''
              @ [10] @ u ''def add(a, b): return Anything()'' @ [10]"

definition rt_any :: py_runtime where
  "rt_any =
     rt_add\<lparr>py_exec := (\<lambda>code. if code = any_code
                                then Inr [u ''Anything'' \<mapsto> PObj 3, u ''add'' \<mapsto> PObj 0]
                                else Inl (PyExc OtherException (u ''SyntaxError'')
                                            (u ''invalid syntax'') [])),
            py_call := (\<lambda>f args. case (f, args) of
                                    (PObj 0, [a, b]) \<Rightarrow> Inr (PObj 2)
                                  | _ \<Rightarrow> Inl (TypeError (u ''bad arguments''))),
            obj_eq := (\<lambda>a b. if a = PObj 2 then Inr (PBool True) else Inr (PBool (a = b)))\<rparr>"

text \<open>
  A runtime and a pool for a program whose result compares to the number 2 and travels
  to the parent as the integer 0:

  \<^verbatim>\<open>class A:\<close>
  \<^verbatim>\<open>    def __eq__(self, other): return 2\<close>
  \<^verbatim>\<open>    def __reduce__(self): return (int, ())\<close>
  \<^verbatim>\<open>def f(): return A()\<close>
\<close>

definition two_code :: pystr where
  "two_code = u ''class A:'' @ [10] @ u ''    def __eq__(self, other): return 2'' @ [10]
              @ u ''    def __reduce__(self): return (int, ())'' @ [10]
              @ u ''def f(): return A()'' @ [10]"

definition rt_two :: py_runtime where
  "rt_two =
     rt_add\<lparr>py_exec := (\<lambda>code. if code = two_code
                                then Inr [u ''A'' \<mapsto> PObj 3, u ''f'' \<mapsto> PObj 0]
                                else Inl (PyExc OtherException (u ''SyntaxError'')
                                            (u ''invalid syntax'') [])),
            getfullargspec_args :=
              (\<lambda>f. if f = PObj 0 then Inr []
                    else Inl (TypeError (u ''unsupported callable''))),
            py_call := (\<lambda>f args. case (f, args) of
                                    (PObj 0, []) \<Rightarrow> Inr (PObj 2)
                                  | _ \<Rightarrow> Inl (TypeError (u ''bad arguments''))),
            obj_eq := (\<lambda>a b. if a = PObj 2 then Inr (PInt 2) else Inr (PBool (a = b)))\<rparr>"

text \<open>A pool of four workers in which every worker answers in time. A result that
  holds an object of a class or function defined by the submitted code cannot be
  pickled.\<close>

definition env_add :: pool_env where
  "env_add =
     \<lparr>fate = (\<lambda>i. Completes),
      runtime = (\<lambda>i. rt_add),
      pickled = (\<lambda>i r. Inl (PyExc OtherException (u ''PicklingError'')
                               (u ''Can't pickle'') [])),
      obj_and = (\<lambda>a b. Inl (TypeError (u ''unsupported operand type(s) for &='' ))),
      getenv_max_workers = None,
      cpu_count = Some 4,
      py_int = (\<lambda>s. Inl (ValueError (u ''invalid literal for int() with base 10''))),
      submit_error = (\<lambda>i. None)\<rparr>"

definition env_two :: pool_env where
  "env_two =
     env_add\<lparr>runtime := (\<lambda>i. rt_two),
             pickled := (\<lambda>i r. Inr (r\<lparr>got := (if got r = PObj 2 then PInt 0 else got r)\<rparr>))\<rparr>"

text \<open>A runtime in which loading the submitted text leaves the interpreter, as
  \<^verbatim>\<open>import sys; sys.exit(1)\<close> does: \<^verbatim>\<open>SystemExit\<close> derives from \<^verbatim>\<open>BaseException\<close>
  only.\<close>

definition exit_code :: pystr where
  "exit_code = u ''import sys; sys.exit(1)''"

definition rt_exit :: py_runtime where
  "rt_exit = rt_add\<lparr>py_exec := (\<lambda>code. Inl (PyExc BaseOnly (u ''SystemExit'') (u ''1'') []))\<rparr>"

definition env_exit :: pool_env where
  "env_exit = env_add\<lparr>runtime := (\<lambda>i. rt_exit)\<rparr>"

text \<open>
  A pool in which the worker of case 0 never ends, as with the program

  \<^verbatim>\<open>import threading\<close>
  \<^verbatim>\<open>def add(a, b): threading.Event().wait()\<close>

  whose call blocks without using CPU time.
\<close>

definition wait_code :: pystr where
  "wait_code = u ''import threading'' @ [10] @ u ''def add(a, b): threading.Event().wait()''
               @ [10]"

definition env_wait :: pool_env where
  "env_wait = env_add\<lparr>fate := (\<lambda>i. if i = 0 then Hangs else Completes)\<rparr>"

text \<open>A pool in which the worker of case 1 does not answer in time, and ends later.\<close>

definition env_demo :: pool_env where
  "env_demo = env_add\<lparr>fate := (\<lambda>i. if i = 1 then TimesOut else Completes)\<rparr>"

definition case_5 :: io_case where
  "case_5 = [u ''input'' \<mapsto> u ''a=2, b=3'', u ''output'' \<mapsto> u ''5'']"

definition case_6 :: io_case where
  "case_6 = [u ''input'' \<mapsto> u ''a=2, b=3'', u ''output'' \<mapsto> u ''6'']"

definition case_add :: io_case where
  "case_add = [u ''input'' \<mapsto> u ''a=2, b=3'', u ''output'' \<mapsto> u ''add'']"

definition case_7 :: io_case where
  "case_7 = [u ''input'' \<mapsto> u '' 7 '', u ''output'' \<mapsto> u ''7'']"

definition case_words :: io_case where
  "case_words = [u ''input'' \<mapsto> u ''two and three'', u ''output'' \<mapsto> u ''5'']"

definition case_zero :: io_case where
  "case_zero = [u ''input'' \<mapsto> [], u ''output'' \<mapsto> u ''0'']"

text \<open>The cases of a batch of three, and the results the orchestrator returns for it in
  \<open>env_demo\<close>.\<close>

definition demo_cases :: "io_case list" where
  "demo_cases = [case_5, case_add, case_6]"

definition demo_results :: "case_result list" where
  "demo_results =
     [\<lparr>passed = PBool True, got = PInt 5, expected = PInt 5, error = None,
       case_index = 0, input_text = Some (u ''a=2, b=3'')\<rparr>,
      \<lparr>passed = PBool False, got = PNone, expected = PStr (u ''add''),
       error = Some (u ''Timeout''),
       case_index = 1, input_text = Some (u ''a=2, b=3'')\<rparr>,
      \<lparr>passed = PBool False, got = PInt 5, expected = PInt 6, error = None,
       case_index = 2, input_text = Some (u ''a=2, b=3'')\<rparr>]"

text \<open>
  A file system with one session, \<^verbatim>\<open>s1\<close>, that holds a symbolic link to \<^verbatim>\<open>/etc\<close>
  (a command run in the session can create one with \<^verbatim>\<open>ln -s /etc out\<close>). The
  file-system encoding is UTF-8 with \<^verbatim>\<open>surrogateescape\<close>, which cannot encode the
  surrogates outside \<^verbatim>\<open>U+DC80\<close> to \<^verbatim>\<open>U+DCFF\<close>.
\<close>

definition os_demo :: os_state where
  "os_demo =
     \<lparr>cwd = u ''/srv'',
      files = [[u ''tmp''] \<mapsto> Dir,
               [u ''tmp'', u ''genie_repl''] \<mapsto> Dir,
               [u ''tmp'', u ''genie_repl'', u ''s1''] \<mapsto> Dir,
               [u ''tmp'', u ''genie_repl'', u ''s1'', u ''out''] \<mapsto> Symlink (u ''/etc''),
               [u ''etc''] \<mapsto> Dir,
               [u ''etc'', u ''passwd''] \<mapsto> File (u ''root'')],
      fsencode_error =
        (\<lambda>p. if list_ex (\<lambda>c. 55296 \<le> c \<and> c \<le> 57343 \<and> (c < 56448 \<or> 56575 < c)) p
              then Some (u ''surrogates not allowed'') else None),
      utf8_error = (\<lambda>s. u ''surrogates not allowed'')\<rparr>"

text \<open>Two behaviours of a command: one that prints a line and ends, and one that is
  still running after 30 seconds.\<close>

definition sh_ok :: "pystr \<Rightarrow> pystr \<Rightarrow> proc_behaviour" where
  "sh_ok cmd workdir = Exits (u ''hello'' @ [10]) []"

definition sh_timeout :: "pystr \<Rightarrow> pystr \<Rightarrow> proc_behaviour" where
  "sh_timeout cmd workdir = RunsOver (u ''Traceback (most recent call last):'' @ [10])"

section \<open>Properties of the session directory\<close>

lemmas str_defs = u_def ch_def

lemma split_on_no_sep: "c \<notin> set s \<Longrightarrow> split_on c s = [s]"
  by (induction s) auto

lemma replace_slash_free: "47 \<notin> set (replace [47] [95] s)"
  by (induction "[47::nat]" "[95::nat]" s rule: replace.induct) auto

lemma replace_dotdot_slash_free:
  "47 \<notin> set s \<Longrightarrow> 47 \<notin> set (replace [46, 46] [95, 95] s)"
  by (induction "[46::nat, 46]" "[95::nat, 95]" s rule: replace.induct) (auto dest: in_set_dropD)

lemma replace_hit:
  "old \<noteq> [] \<Longrightarrow> prefix old (x # xs) \<Longrightarrow>
   replace old new (x # xs) = new @ replace old new (drop (length old) (x # xs))"
  by simp

lemma replace_miss:
  "\<not> prefix old (x # xs) \<Longrightarrow> replace old new (x # xs) = x # replace old new xs"
  by simp

lemma replace_empty: "new \<noteq> [] \<Longrightarrow> replace old new s = [] \<longleftrightarrow> s = []"
  by (cases s) auto

lemma replace_dotdot_head:
  assumes a: "replace [46, 46] [95, 95] s = 46 # r"
  shows "\<exists>s'. s = 46 # s' \<and> \<not> prefix [46] s' \<and> r = replace [46, 46] [95, 95] s'"
proof (cases s)
  case Nil
  with a show ?thesis by simp
next
  case (Cons x xs)
  show ?thesis
  proof (cases "prefix [46, 46] (x # xs)")
    case True
    have "replace [46, 46] [95, 95] (x # xs)
            = [95, 95] @ replace [46, 46] [95, 95] (drop (length [46::nat, 46]) (x # xs))"
      by (rule replace_hit [OF _ True]) simp
    with a show ?thesis unfolding Cons by simp
  next
    case False
    have eq: "replace [46, 46] [95, 95] (x # xs) = x # replace [46, 46] [95, 95] xs"
      by (rule replace_miss [OF False])
    with a have x: "x = 46" and r: "r = replace [46, 46] [95, 95] xs" unfolding Cons by simp_all
    from False have "\<not> prefix [46] xs" unfolding x by simp
    with x r show ?thesis unfolding Cons by simp
  qed
qed

lemma replace_dotdot_no_prefix: "\<not> prefix [46, 46] (replace [46, 46] [95, 95] s)"
proof (cases s)
  case Nil
  then show ?thesis by simp
next
  case (Cons x xs)
  show ?thesis
  proof (cases "prefix [46, 46] (x # xs)")
    case True
    have "replace [46, 46] [95, 95] (x # xs)
            = [95, 95] @ replace [46, 46] [95, 95] (drop (length [46::nat, 46]) (x # xs))"
      by (rule replace_hit [OF _ True]) simp
    then show ?thesis unfolding Cons by simp
  next
    case False
    have eq: "replace [46, 46] [95, 95] (x # xs) = x # replace [46, 46] [95, 95] xs"
      by (rule replace_miss [OF False])
    show ?thesis
    proof
      assume "prefix [46, 46] (replace [46, 46] [95, 95] s)"
      then have "prefix [46, 46] (x # replace [46, 46] [95, 95] xs)"
        unfolding Cons eq .
      then have xp: "46 = x \<and> prefix [46] (replace [46, 46] [95, 95] xs)"
        by (rule Cons_prefix_Cons [THEN iffD1])
      from xp have x: "x = 46" by blast
      from xp have p: "prefix [46] (replace [46, 46] [95, 95] xs)" by blast
      from p obtain r where "replace [46, 46] [95, 95] xs = 46 # r"
        by (auto simp: prefix_def)
      then obtain s' where "xs = 46 # s'"
        using replace_dotdot_head by blast
      with False show False unfolding x by simp
    qed
  qed
qed

lemma replace_dotdot_ne: "replace [46, 46] [95, 95] s \<noteq> [46, 46]"
  using replace_dotdot_no_prefix [of s] by auto

lemma replace_dotdot_dot: "replace [46, 46] [95, 95] s = [46] \<longleftrightarrow> s = [46]"
proof
  assume "replace [46, 46] [95, 95] s = [46]"
  then obtain s' where s: "s = 46 # s'" and r: "[] = replace [46, 46] [95, 95] s'"
    using replace_dotdot_head [of s "[]"] by blast
  from r have "s' = []" by (cases s') (auto split: if_splits)
  with s show "s = [46]" by simp
next
  assume "s = [46]"
  then show "replace [46, 46] [95, 95] s = [46]" by simp
qed

lemma replace_slash_dot: "replace [47] [95] s = [46] \<longleftrightarrow> s = [46]"
proof (cases s)
  case Nil
  then show ?thesis by simp
next
  case (Cons x xs)
  then show ?thesis by (cases xs) (auto split: if_splits)
qed

lemma segment_empty_or_dot:
  "replace [46, 46] [95, 95] (replace [47] [95] s) \<in> {[], [46]} \<longleftrightarrow> s \<in> {[], [46]}"
  by (simp add: replace_empty replace_dotdot_dot replace_slash_dot)

lemma path_join_root_seg:
  "47 \<notin> set seg \<Longrightarrow> path_join TMP_ROOT seg = TMP_ROOT @ [47] @ seg"
  by (cases seg) (auto simp: path_join_def TMP_ROOT_def startswith_def endswith_def str_defs)

lemma dirname_root_seg:
  "47 \<notin> set seg \<Longrightarrow> dirname (TMP_ROOT @ [47] @ seg) = TMP_ROOT"
proof -
  assume a: "47 \<notin> set seg"
  have "dropWhile (\<lambda>c. c \<noteq> 47) (rev seg @ 47 # rev TMP_ROOT) = 47 # rev TMP_ROOT"
    using a by (subst dropWhile_append2) auto
  then show ?thesis
    by (simp add: dirname_def TMP_ROOT_def Let_def str_defs)
qed

lemma normpath_root_seg:
  "47 \<notin> set seg \<Longrightarrow> seg \<noteq> [46, 46] \<Longrightarrow>
   normpath (TMP_ROOT @ [47] @ seg)
     = (if seg = [] \<or> seg = [46] then TMP_ROOT else TMP_ROOT @ [47] @ seg)"
  by (simp add: normpath_def normpath_step_def TMP_ROOT_def startswith_def split_on_no_sep
        Let_def str_defs)

text \<open>
  Claim C10, as the code has it. For every session id, \<open>safe_dirname\<close> returns the fixed root
  joined with one segment: the segment holds no \<^verbatim>\<open>/\<close> and is not \<^verbatim>\<open>..\<close> (every \<^verbatim>\<open>/\<close>
  became \<^verbatim>\<open>_\<close>, every \<^verbatim>\<open>..\<close> became \<^verbatim>\<open>__\<close>), so the directory an endpoint addresses
  (\<^verbatim>\<open>os.path.abspath\<close> of the returned path) is a direct child of the root, except for
  the ids \<^verbatim>\<open>""\<close> and \<^verbatim>\<open>"."\<close>, for which it is the root itself; it is never outside the
  root.
\<close>

theorem safe_dirname_confined:
  "safe_dirname session_id
     = TMP_ROOT @ u ''/'' @ replace (u ''..'') (u ''__'') (replace (u ''/'') (u ''_'') session_id)
   \<and> ch CHR ''/'' \<notin> set (replace (u ''..'') (u ''__'') (replace (u ''/'') (u ''_'') session_id))
   \<and> replace (u ''..'') (u ''__'') (replace (u ''/'') (u ''_'') session_id) \<noteq> u ''..''
   \<and> abspath d (safe_dirname session_id) =
       (if session_id \<in> {[], u ''.''} then TMP_ROOT else safe_dirname session_id)
   \<and> directly_under_root d (safe_dirname session_id) = (session_id \<notin> {[], u ''.''})
   \<and> startswith (abspath d (safe_dirname session_id)) TMP_ROOT"
proof -
  define seg where "seg = replace [46, 46] [95, 95] (replace [47] [95] session_id)"
  have ns: "47 \<notin> set seg"
    unfolding seg_def by (rule replace_dotdot_slash_free) (rule replace_slash_free)
  have ne: "seg \<noteq> [46, 46]"
    unfolding seg_def by (rule replace_dotdot_ne)
  have sd: "safe_dirname session_id = TMP_ROOT @ [47] @ seg"
    unfolding safe_dirname_def seg_def using ns [unfolded seg_def]
    by (simp add: str_defs path_join_root_seg)
  have dn: "dirname (TMP_ROOT @ [47] @ seg) = TMP_ROOT"
    using ns by (rule dirname_root_seg)
  have ab: "abspath d (safe_dirname session_id) = normpath (TMP_ROOT @ [47] @ seg)"
    unfolding sd by (simp add: abspath_def startswith_def TMP_ROOT_def str_defs)
  have sg: "seg \<in> {[], [46]} \<longleftrightarrow> session_id \<in> {[], [46]}"
    unfolding seg_def by (rule segment_empty_or_dot)
  have ab2: "abspath d (safe_dirname session_id) =
          (if session_id \<in> {[], [46]} then TMP_ROOT else safe_dirname session_id)"
    using ab normpath_root_seg [OF ns ne] sg by (simp add: sd)
  have du: "directly_under_root d (safe_dirname session_id) = (session_id \<notin> {[], [46]})"
  proof (cases "session_id \<in> {[], [46]}")
    case True
    then have "abspath d (safe_dirname session_id) = TMP_ROOT" using ab2 by simp
    then show ?thesis using True
      by (simp add: directly_under_root_def dirname_def TMP_ROOT_def str_defs)
  next
    case False
    then have "abspath d (safe_dirname session_id) = TMP_ROOT @ [47] @ seg" using ab2 sd by simp
    then show ?thesis using False dn by (simp add: directly_under_root_def)
  qed
  have sw: "startswith (abspath d (safe_dirname session_id)) TMP_ROOT"
    unfolding ab2 by (simp add: startswith_def sd)
  from ns ne sd ab2 du sw show ?thesis
    unfolding seg_def by (simp add: str_defs)
qed

theorem safe_dirname_confined_witness:
  "safe_dirname (u ''../..//x'') = u ''/tmp/genie_repl/_______x''
   \<and> abspath (u ''/srv'') (safe_dirname (u ''../..//x'')) = safe_dirname (u ''../..//x'')
   \<and> directly_under_root (u ''/srv'') (safe_dirname (u ''../..//x''))"
  using safe_dirname_confined [of "u ''../..//x''" "u ''/srv''"]
  by (auto simp: TMP_ROOT_def str_defs)

text \<open>
  Claim C10 as stated fails: for the ids \<^verbatim>\<open>""\<close> and \<^verbatim>\<open>"."\<close> the returned path names
  the root itself, which is not a path directly under the root; every session directory
  lies below the directory these two ids address.
\<close>

theorem safe_dirname_root_counterexample:
  "safe_dirname [] = u ''/tmp/genie_repl/''
   \<and> abspath (u ''/srv'') (safe_dirname []) = TMP_ROOT
   \<and> \<not> directly_under_root (u ''/srv'') (safe_dirname [])
   \<and> safe_dirname (u ''.'') = u ''/tmp/genie_repl/.''
   \<and> abspath (u ''/srv'') (safe_dirname (u ''.'')) = TMP_ROOT
   \<and> \<not> directly_under_root (u ''/srv'') (safe_dirname (u ''.''))"
  by (simp add: safe_dirname_def path_join_def TMP_ROOT_def startswith_def endswith_def
        abspath_def normpath_def normpath_step_def directly_under_root_def dirname_def str_defs)

section \<open>Properties of the worker\<close>

lemmas eff_defs = then_do_def step_def quiet_def raised_def getitem_def

lemma snd_then_do:
  "snd (then_do m f) = snd m @ (case fst m of Inl e \<Rightarrow> [] | Inr x \<Rightarrow> snd (f x))"
  by (simp add: then_do_def split: sum.splits prod.splits)

lemma fst_then_do:
  "fst (then_do m f) = (case fst m of Inl e \<Rightarrow> Inl e | Inr x \<Rightarrow> fst (f x))"
  by (simp add: then_do_def split: sum.splits prod.splits)

lemma snd_run_single_case:
  "snd (run_single_case rt code ep c mem cpu) = snd (run_single_case_body rt code ep c mem cpu)"
  by (simp add: run_single_case_def split: prod.splits sum.splits)

lemma set_limits_cases:
  "set_limits rt mem cpu =
     (case setrlimit rt RLIMIT_AS (mem * 1024 * 1024, mem * 1024 * 1024) of
        Some e \<Rightarrow> (Inl e, [SetRLimit RLIMIT_AS (mem * 1024 * 1024) (mem * 1024 * 1024)])
      | None \<Rightarrow>
          (raised (setrlimit rt RLIMIT_CPU (cpu, cpu + 1)),
           [SetRLimit RLIMIT_AS (mem * 1024 * 1024) (mem * 1024 * 1024),
            SetRLimit RLIMIT_CPU cpu (cpu + 1)]))"
  by (simp add: set_limits_def Let_def then_do_def raised_def step_def split: option.splits)

lemma trace_after_limits:
  "\<exists>rest. snd (run_single_case rt code ep c mem cpu) = snd (set_limits rt mem cpu) @ rest
     \<and> (\<forall>e. fst (set_limits rt mem cpu) = Inl e \<longrightarrow> rest = [])"
  unfolding snd_run_single_case run_single_case_body_def invoke_entry_def
  by (cases "fst (set_limits rt mem cpu)") (simp_all add: snd_then_do fst_then_do)

text \<open>
  Claim C7. In every worker the two \<^verbatim>\<open>setrlimit\<close> calls come before any step that runs
  text or code supplied by the caller (loading the source, evaluating the entry point
  or the expected output, calling the function, comparing the result): whenever such a
  step is in the worker's trace at position \<open>i\<close>, then \<open>i\<close> is at least 2, the first
  step set the address-space limit with soft = hard = \<open>mem_limit_mb\<close> megabytes in
  bytes, the second step set the CPU limit with soft = \<open>cpu_seconds\<close> and hard one second
  more, and both calls returned without raising.
\<close>

theorem limits_before_user_code:
  "i < length (snd (run_single_case rt code ep c mem cpu)) \<and>
   runs_user_code (snd (run_single_case rt code ep c mem cpu) ! i) \<longrightarrow>
     2 \<le> i
     \<and> snd (run_single_case rt code ep c mem cpu) ! 0
         = SetRLimit RLIMIT_AS (mem * 1024 * 1024) (mem * 1024 * 1024)
     \<and> snd (run_single_case rt code ep c mem cpu) ! 1 = SetRLimit RLIMIT_CPU cpu (cpu + 1)
     \<and> setrlimit rt RLIMIT_AS (mem * 1024 * 1024, mem * 1024 * 1024) = None
     \<and> setrlimit rt RLIMIT_CPU (cpu, cpu + 1) = None"
proof -
  let ?as = "SetRLimit RLIMIT_AS (mem * 1024 * 1024) (mem * 1024 * 1024)"
  let ?cpu = "SetRLimit RLIMIT_CPU cpu (cpu + 1)"
  let ?t = "snd (run_single_case rt code ep c mem cpu)"
  obtain rest where t: "?t = snd (set_limits rt mem cpu) @ rest"
    and stop: "\<And>e. fst (set_limits rt mem cpu) = Inl e \<Longrightarrow> rest = []"
    using trace_after_limits [of rt code ep c mem cpu] by blast
  show ?thesis
  proof (cases "setrlimit rt RLIMIT_AS (mem * 1024 * 1024, mem * 1024 * 1024)")
    case (Some e)
    then have "fst (set_limits rt mem cpu) = Inl e" by (simp add: set_limits_cases)
    then have "rest = []" by (rule stop)
    with Some have "?t = [?as]" unfolding t by (simp add: set_limits_cases)
    then show ?thesis by (auto simp: nth_Cons split: nat.splits)
  next
    case None
    note as_ok = None
    show ?thesis
    proof (cases "setrlimit rt RLIMIT_CPU (cpu, cpu + 1)")
      case (Some e)
      then have "fst (set_limits rt mem cpu) = Inl e"
        using as_ok by (simp add: set_limits_cases raised_def)
      then have "rest = []" by (rule stop)
      with Some as_ok have "?t = [?as, ?cpu]" unfolding t by (simp add: set_limits_cases)
      then show ?thesis by (auto simp: nth_Cons split: nat.splits)
    next
      case None
      then have "?t = ?as # ?cpu # rest"
        unfolding t using as_ok by (simp add: set_limits_cases)
      with as_ok None show ?thesis by (auto simp: nth_Cons split: nat.splits)
    qed
  qed
qed

subsection \<open>The example of the specification, run\<close>

lemmas rx_defs = kw_pairs_def finditer.simps kw_pattern_def run_length_def is_word_def is_space_def
  is_dot_def strip_def group_text_def

lemma kw_pairs_example:
  "kw_pairs latin1_alnum (u ''a=2, b=3'') = [(u ''a'', u ''2''), (u ''b'', u ''3'')]"
  by (simp add: rx_defs str_defs)

text \<open>A name that is the letter \<^verbatim>\<open>U+00E9\<close>, and no-break spaces \<^verbatim>\<open>U+00A0\<close> before a
  name and after a value.\<close>

lemma kw_pairs_unicode:
  "kw_pairs latin1_alnum ([233] @ u ''=1,'' @ [160] @ u ''b = 2'' @ [160])
     = [([233], u ''1''), (u ''b'', u ''2'')]"
  by (simp add: rx_defs latin1_alnum_def str_defs)

lemma lit_2: "literal_eval_demo (u ''2'') = Inr (PInt 2)"
  and lit_3: "literal_eval_demo (u ''3'') = Inr (PInt 3)"
  and lit_5: "literal_eval_demo (u ''5'') = Inr (PInt 5)"
  and lit_6: "literal_eval_demo (u ''6'') = Inr (PInt 6)"
  and lit_7: "literal_eval_demo (u ''7'') = Inr (PInt 7)"
  and lit_0: "literal_eval_demo (u ''0'') = Inr (PInt 0)"
  by (simp_all add: literal_eval_demo_def is_digit_def str_defs)

lemma lit_words:
  "literal_eval_demo (u ''two and three'') = Inl (ValueError (u ''malformed node or string''))"
  by (simp add: literal_eval_demo_def is_digit_def str_defs)

lemma lit_add:
  "literal_eval_demo (u ''add'') = Inl (ValueError (u ''malformed node or string''))"
  by (simp add: literal_eval_demo_def is_digit_def str_defs)

lemma lit_empty:
  "literal_eval_demo [] = Inl (PyExc OtherException (u ''SyntaxError'') (u ''invalid syntax'') [])"
  by (simp add: literal_eval_demo_def)

lemma parse_kw_example:
  "parse_kw rt_add (u ''a=2, b=3'') = Inr [(u ''a'', PInt 2), (u ''b'', PInt 3)]"
proof -
  have "parse_kw rt_add (u ''a=2, b=3'')
          = parse_kw_loop literal_eval_demo [(u ''a'', u ''2''), (u ''b'', u ''3'')] []"
    by (simp add: parse_kw_def rt_add_def kw_pairs_example)
  also have "\<dots> = Inr [(u ''a'', PInt 2), (u ''b'', PInt 3)]"
    by (simp add: lit_2 lit_3) (simp add: str_defs)
  finally show ?thesis .
qed

lemma set_limits_example:
  "set_limits rt_add 2048 4
     = (Inr (), [SetRLimit RLIMIT_AS 2147483648 2147483648, SetRLimit RLIMIT_CPU 4 5])"
  by (simp add: set_limits_def eff_defs rt_add_def)

lemma load_and_call_example:
  "load_and_call rt_add add_code (u ''add'') case_5
     = (Inr ([u ''add'' \<mapsto> PObj 0], PInt 5),
        [ExecCode add_code, EvalExpr (u ''add''), CallFunc (PObj 0) [PInt 2, PInt 3]])"
proof -
  have i: "getitem case_5 (u ''input'') = Inr (u ''a=2, b=3'')"
    by (simp add: getitem_def case_5_def str_defs)
  have ex: "py_exec rt_add add_code = Inr [u ''add'' \<mapsto> PObj 0]"
    by (simp add: rt_add_def)
  have ev: "py_eval rt_add (u ''add'') [u ''add'' \<mapsto> PObj 0] = Inr (PObj 0)"
    by (simp add: rt_add_def name_lookup_def)
  have sp: "getfullargspec_args rt_add (PObj 0) = Inr [u ''a'', u ''b'']"
    by (simp add: rt_add_def)
  have lk: "lookup_all [(u ''a'', PInt 2), (u ''b'', PInt 3)] (declared_arg_names [u ''a'', u ''b''])
              = Inr [PInt 2, PInt 3]"
    by (simp add: declared_arg_names_def str_defs)
  have cl: "py_call rt_add (PObj 0) [PInt 2, PInt 3] = Inr (PInt 5)"
    by (simp add: rt_add_def)
  show ?thesis
    unfolding load_and_call_def
    by (simp add: then_do_def step_def quiet_def i ex ev sp parse_kw_example lk cl)
qed

lemma invoke_entry_example:
  "invoke_entry rt_add add_code (u ''add'') case_5 2048 4
     = (Inr ([u ''add'' \<mapsto> PObj 0], PInt 5),
        [SetRLimit RLIMIT_AS 2147483648 2147483648, SetRLimit RLIMIT_CPU 4 5,
         ExecCode add_code, EvalExpr (u ''add''), CallFunc (PObj 0) [PInt 2, PInt 3]])"
  by (simp add: invoke_entry_def set_limits_example load_and_call_example then_do_def)

lemma load_and_call_same_input:
  "c (u ''input'') = c' (u ''input'') \<Longrightarrow> load_and_call rt code ep c = load_and_call rt code ep c'"
  by (simp add: load_and_call_def getitem_def)

lemma invoke_entry_same_input:
  "c (u ''input'') = c' (u ''input'') \<Longrightarrow>
   invoke_entry rt code ep c mem cpu = invoke_entry rt code ep c' mem cpu"
  by (simp add: invoke_entry_def load_and_call_same_input [of c c'])

lemma expected_5: "expected_value rt_add case_5 g = (Inr (PInt 5), [])"
proof -
  have "getitem case_5 (u ''output'') = Inr (u ''5'')"
    by (simp add: getitem_def case_5_def str_defs)
  moreover have "literal_eval rt_add (u ''5'') = Inr (PInt 5)"
    by (simp add: rt_add_def lit_5)
  ultimately show ?thesis by (simp add: expected_value_def quiet_def)
qed

lemma run_case_5:
  "run_single_case rt_add add_code (u ''add'') case_5 2048 4
     = (Inr \<lparr>passed = PBool True, got = PInt 5, expected = PInt 5, error = None\<rparr>,
        [SetRLimit RLIMIT_AS 2147483648 2147483648, SetRLimit RLIMIT_CPU 4 5,
         ExecCode add_code, EvalExpr (u ''add''), CallFunc (PObj 0) [PInt 2, PInt 3]])"
  unfolding run_single_case_def run_single_case_body_def
  by (simp add: invoke_entry_example expected_5 then_do_def quiet_def py_eq_def)

theorem limits_before_user_code_witness:
  "2 < length (snd (run_single_case rt_add add_code (u ''add'') case_5 2048 4))
   \<and> runs_user_code (snd (run_single_case rt_add add_code (u ''add'') case_5 2048 4) ! 2)
   \<and> snd (run_single_case rt_add add_code (u ''add'') case_5 2048 4) ! 0
       = SetRLimit RLIMIT_AS 2147483648 2147483648
   \<and> snd (run_single_case rt_add add_code (u ''add'') case_5 2048 4) ! 1 = SetRLimit RLIMIT_CPU 4 5"
  using limits_before_user_code [of 2 rt_add add_code "u ''add''" case_5 2048 4]
  by (simp add: run_case_5)

lemma lookup_all_present:
  "set names \<subseteq> fst ` set params \<Longrightarrow>
   lookup_all params names = Inr (map (\<lambda>a. the (map_of params a)) names)"
proof (induction names)
  case Nil
  then show ?case by simp
next
  case (Cons a names)
  then have "a \<in> fst ` set params" by simp
  then obtain v where "map_of params a = Some v"
    by (meson map_of_eq_None_iff not_Some_eq)
  with Cons show ?case by simp
qed

lemma update_not_empty: "AList.update k x out \<noteq> []"
  by (cases out) auto

lemma parse_kw_loop_map_of:
  "parse_kw_loop lit ms out = Inr ps \<Longrightarrow>
   map_of ps = map_of (rev (List.map_filter
       (\<lambda>(k, raw). case lit raw of Inr v \<Rightarrow> Some (k, v) | Inl e \<Rightarrow> None) ms) @ out)"
proof (induction ms arbitrary: out)
  case Nil
  then show ?case by (simp add: List.map_filter_simps)
next
  case (Cons m ms)
  obtain k0 raw0 where m: "m = (k0, raw0)" by (cases m)
  show ?case
  proof (cases "lit raw0")
    case (Inr x)
    from Cons.prems have "parse_kw_loop lit ms (AList.update k0 x out) = Inr ps"
      using Inr m by simp
    from Cons.IH [OF this] show ?thesis
      using Inr m by (simp add: List.map_filter_simps update_conv' map_add_def fun_eq_iff)
  next
    case (Inl e)
    from Cons.prems have "parse_kw_loop lit ms out = Inr ps"
      using Inl m by (simp split: if_splits)
    from Cons.IH [OF this] show ?thesis
      using Inl m by (simp add: List.map_filter_simps)
  qed
qed

lemma parse_kw_loop_empty:
  "parse_kw_loop lit ms out = Inr ps \<Longrightarrow>
   (ps = []) = (out = [] \<and> List.map_filter
       (\<lambda>(k, raw). case lit raw of Inr v \<Rightarrow> Some (k, v) | Inl e \<Rightarrow> None) ms = [])"
proof (induction ms arbitrary: out)
  case Nil
  then show ?case by (simp add: List.map_filter_simps)
next
  case (Cons m ms)
  obtain k0 raw0 where m: "m = (k0, raw0)" by (cases m)
  show ?case
  proof (cases "lit raw0")
    case (Inr x)
    from Cons.prems have "parse_kw_loop lit ms (AList.update k0 x out) = Inr ps"
      using Inr m by simp
    from Cons.IH [OF this] show ?thesis
      using Inr m by (simp add: List.map_filter_simps update_not_empty)
  next
    case (Inl e)
    from Cons.prems have "parse_kw_loop lit ms out = Inr ps"
      using Inl m by (simp split: if_splits)
    from Cons.IH [OF this] show ?thesis
      using Inl m by (simp add: List.map_filter_simps)
  qed
qed

lemma parse_kw_literal_pairs:
  assumes "parse_kw rt inp = Inr params"
  shows "map_of params = map_of (rev (literal_pairs rt inp))"
    and "(params = []) = (literal_pairs rt inp = [])"
  using parse_kw_loop_map_of [of "literal_eval rt" "kw_pairs (unicode_alnum rt) inp" "[]" params]
    parse_kw_loop_empty [of "literal_eval rt" "kw_pairs (unicode_alnum rt) inp" "[]" params] assms
  by (simp_all add: parse_kw_def literal_pairs_def)

text \<open>
  Claim C8. After the code is loaded and the entry point resolved, the worker calls the
  entry point exactly once, and with these arguments. When the keyword form gave at
  least one pair whose value is a literal: the values of the declared parameter names in
  the declared order, where a first parameter named \<^verbatim>\<open>self\<close> is left out and every
  other parameter is bound. When it gave none and the whole stripped input is a
  literal: that one value. When it is not: no argument at all. What the keyword form
  gives is, for each name, the \<^verbatim>\<open>literal_eval\<close> of the value text of the last pair of
  that name whose value text is a literal; no text of the input is run.
\<close>

theorem argument_binding:
  assumes "py_exec rt code = Inr g"
    and "c (u ''input'') = Some inp"
    and "parse_kw rt inp = Inr params"
    and "py_eval rt ep g = Inr func"
    and "getfullargspec_args rt func = Inr spec_args"
  shows
    "(params \<noteq> [] \<and> spec_args = u ''self'' # names \<and> set names \<subseteq> fst ` set params \<longrightarrow>
        snd (load_and_call rt code ep c)
          = [ExecCode code, EvalExpr ep,
             CallFunc func (map (\<lambda>a. the (map_of params a)) names)])
     \<and> (params \<noteq> [] \<and> (spec_args = [] \<or> hd spec_args \<noteq> u ''self'')
          \<and> set spec_args \<subseteq> fst ` set params \<longrightarrow>
          snd (load_and_call rt code ep c)
            = [ExecCode code, EvalExpr ep,
               CallFunc func (map (\<lambda>a. the (map_of params a)) spec_args)])
     \<and> (params = [] \<and> literal_eval rt (strip inp) = Inr v \<longrightarrow>
          snd (load_and_call rt code ep c) = [ExecCode code, EvalExpr ep, CallFunc func [v]])
     \<and> (params = [] \<and> literal_eval rt (strip inp) = Inl e \<and> is_Exception e \<longrightarrow>
          snd (load_and_call rt code ep c) = [ExecCode code, EvalExpr ep, CallFunc func []])
     \<and> map_of params k = map_of (rev (literal_pairs rt inp)) k
     \<and> (params = []) = (literal_pairs rt inp = [])"
proof (intro conjI impI)
  assume a: "params \<noteq> [] \<and> spec_args = u ''self'' # names \<and> set names \<subseteq> fst ` set params"
  then have "lookup_all params (declared_arg_names spec_args)
               = Inr (map (\<lambda>a. the (map_of params a)) names)"
    by (simp add: lookup_all_present declared_arg_names_def)
  with a assms show "snd (load_and_call rt code ep c)
          = [ExecCode code, EvalExpr ep,
             CallFunc func (map (\<lambda>a. the (map_of params a)) names)]"
    by (simp add: load_and_call_def eff_defs split: sum.splits)
next
  assume a: "params \<noteq> [] \<and> (spec_args = [] \<or> hd spec_args \<noteq> u ''self'')
          \<and> set spec_args \<subseteq> fst ` set params"
  then have "declared_arg_names spec_args = spec_args"
    by (auto simp: declared_arg_names_def)
  with a have "lookup_all params (declared_arg_names spec_args)
               = Inr (map (\<lambda>a. the (map_of params a)) spec_args)"
    by (simp add: lookup_all_present)
  with a assms show "snd (load_and_call rt code ep c)
          = [ExecCode code, EvalExpr ep,
             CallFunc func (map (\<lambda>a. the (map_of params a)) spec_args)]"
    by (simp add: load_and_call_def eff_defs split: sum.splits)
next
  assume "params = [] \<and> literal_eval rt (strip inp) = Inr v"
  with assms show "snd (load_and_call rt code ep c) = [ExecCode code, EvalExpr ep, CallFunc func [v]]"
    by (simp add: load_and_call_def eff_defs parse_list_def split: sum.splits)
next
  assume "params = [] \<and> literal_eval rt (strip inp) = Inl e \<and> is_Exception e"
  with assms show "snd (load_and_call rt code ep c) = [ExecCode code, EvalExpr ep, CallFunc func []]"
    by (simp add: load_and_call_def eff_defs parse_list_def split: sum.splits)
next
  show "map_of params k = map_of (rev (literal_pairs rt inp)) k"
    using parse_kw_literal_pairs(1) [OF assms(3)] by simp
next
  show "(params = []) = (literal_pairs rt inp = [])"
    using assms(3) by (rule parse_kw_literal_pairs(2))
qed

lemma kw_pairs_7: "kw_pairs latin1_alnum (u '' 7 '') = []"
  by (simp add: rx_defs str_defs)

lemma kw_pairs_words: "kw_pairs latin1_alnum (u ''two and three'') = []"
  by (simp add: rx_defs str_defs)

lemma strip_7: "strip (u '' 7 '') = u ''7''"
  by (simp add: strip_def is_space_def str_defs)

lemma strip_words: "strip (u ''two and three'') = u ''two and three''"
  by (simp add: strip_def is_space_def str_defs)

lemma strip_unicode: "strip ([160, 8195] @ u ''7'' @ [133, 10]) = u ''7''"
  by (simp add: strip_def is_space_def str_defs)

theorem argument_binding_witness:
  "snd (load_and_call rt_method method_code (u ''Calc().add'') case_5)
     = [ExecCode method_code, EvalExpr (u ''Calc().add''), CallFunc (PObj 2) [PInt 2, PInt 3]]
   \<and> snd (load_and_call rt_add add_code (u ''add'') case_5)
     = [ExecCode add_code, EvalExpr (u ''add''), CallFunc (PObj 0) [PInt 2, PInt 3]]
   \<and> snd (load_and_call rt_add add_code (u ''add'') case_7)
     = [ExecCode add_code, EvalExpr (u ''add''), CallFunc (PObj 0) [PInt 7]]
   \<and> snd (load_and_call rt_add add_code (u ''add'') case_words)
     = [ExecCode add_code, EvalExpr (u ''add''), CallFunc (PObj 0) []]
   \<and> literal_pairs rt_add (u ''a=2, b=3'') = [(u ''a'', PInt 2), (u ''b'', PInt 3)]"
proof -
  have ex: "py_exec rt_add add_code = Inr [u ''add'' \<mapsto> PObj 0]"
    by (simp add: rt_add_def)
  have ev: "py_eval rt_add (u ''add'') [u ''add'' \<mapsto> PObj 0] = Inr (PObj 0)"
    by (simp add: rt_add_def name_lookup_def)
  have sp: "getfullargspec_args rt_add (PObj 0) = Inr [u ''a'', u ''b'']"
    by (simp add: rt_add_def)
  have mex: "py_exec rt_method method_code = Inr [u ''Calc'' \<mapsto> PObj 3]"
    by (simp add: rt_method_def)
  have mev: "py_eval rt_method (u ''Calc().add'') [u ''Calc'' \<mapsto> PObj 3] = Inr (PObj 2)"
    by (simp add: rt_method_def)
  have msp: "getfullargspec_args rt_method (PObj 2) = Inr (u ''self'' # [u ''a'', u ''b''])"
    by (simp add: rt_method_def)
  have le: "literal_eval rt_add = literal_eval_demo"
    by (simp add: rt_add_def)
  have an: "unicode_alnum rt_add = latin1_alnum"
    by (simp add: rt_add_def)
  have mpk: "parse_kw rt_method (u ''a=2, b=3'') = parse_kw rt_add (u ''a=2, b=3'')"
    by (simp add: parse_kw_def rt_method_def)
  have i5: "case_5 (u ''input'') = Some (u ''a=2, b=3'')" by (simp add: case_5_def str_defs)
  have i7: "case_7 (u ''input'') = Some (u '' 7 '')" by (simp add: case_7_def str_defs)
  have iw: "case_words (u ''input'') = Some (u ''two and three'')"
    by (simp add: case_words_def str_defs)
  have p7: "parse_kw rt_add (u '' 7 '') = Inr []"
    by (simp add: parse_kw_def an kw_pairs_7)
  have pw: "parse_kw rt_add (u ''two and three'') = Inr []"
    by (simp add: parse_kw_def an kw_pairs_words)
  have ne: "[(u ''a'', PInt 2), (u ''b'', PInt 3)] \<noteq> []" by simp
  have sub: "set [u ''a'', u ''b''] \<subseteq> fst ` set [(u ''a'', PInt 2), (u ''b'', PInt 3)]" by simp
  have vals: "map (\<lambda>a. the (map_of [(u ''a'', PInt 2), (u ''b'', PInt 3)] a)) [u ''a'', u ''b'']
                = [PInt 2, PInt 3]"
    by (simp add: str_defs)
  have hd: "hd [u ''a'', u ''b''] \<noteq> u ''self''" by (simp add: str_defs)
  have m: "snd (load_and_call rt_method method_code (u ''Calc().add'') case_5)
     = [ExecCode method_code, EvalExpr (u ''Calc().add''), CallFunc (PObj 2) [PInt 2, PInt 3]]"
    using argument_binding [where rt = rt_method and c = case_5 and names = "[u ''a'', u ''b'']",
        OF mex i5 parse_kw_example [folded mpk] mev msp] ne sub
    by (simp only: vals simp_thms)
  have a: "snd (load_and_call rt_add add_code (u ''add'') case_5)
     = [ExecCode add_code, EvalExpr (u ''add''), CallFunc (PObj 0) [PInt 2, PInt 3]]"
    using argument_binding [where rt = rt_add and c = case_5, OF ex i5 parse_kw_example ev sp]
      ne sub hd
    by (simp only: vals simp_thms)
  have b: "snd (load_and_call rt_add add_code (u ''add'') case_7)
     = [ExecCode add_code, EvalExpr (u ''add''), CallFunc (PObj 0) [PInt 7]]"
    using argument_binding [where rt = rt_add and c = case_7 and v = "PInt 7", OF ex i7 p7 ev sp]
    by (simp add: le strip_7 lit_7)
  have c: "snd (load_and_call rt_add add_code (u ''add'') case_words)
     = [ExecCode add_code, EvalExpr (u ''add''), CallFunc (PObj 0) []]"
    using argument_binding [where rt = rt_add and c = case_words
        and e = "ValueError (u ''malformed node or string'')",
        OF ex iw pw ev sp]
    by (simp add: le strip_words lit_words ValueError_def)
  have d: "literal_pairs rt_add (u ''a=2, b=3'') = [(u ''a'', PInt 2), (u ''b'', PInt 3)]"
    by (simp add: literal_pairs_def an le kw_pairs_example List.map_filter_simps lit_2 lit_3)
  from m a b c d show ?thesis by simp
qed

text \<open>On plain values \<^verbatim>\<open>==\<close> is reflexive: a value equals itself.\<close>

lemma plain_eq_refl: "plain a \<Longrightarrow> plain_eq a a"
proof (induction a)
  case (PList xs)
  then show ?case
    by (auto simp: all_pairwise_def list_all_iff set_zip)
next
  case (PTuple xs)
  then show ?case
    by (auto simp: all_pairwise_def list_all_iff set_zip)
next
  case (PSet xs)
  then show ?case
    by (auto simp: list_all_iff list_ex_iff)
next
  case (PDict kvs)
  then show ?case
    apply (auto simp: list_all_iff list_ex_iff)
    subgoal for k v
      apply (rule bexI [of _ "(k, v)"])
       apply (auto intro: PDict.IH)
      done
    done
qed simp_all

lemma run_single_case_after_entry:
  assumes "fst (invoke_entry rt code ep c mem cpu) = Inr (g, got_value)"
    and "fst (expected_value rt c g) = Inr v"
  shows "fst (run_single_case_body rt code ep c mem cpu)
           = (case fst (py_eq rt got_value v) of
                Inl x \<Rightarrow> Inl x
              | Inr p \<Rightarrow> Inr \<lparr>passed = p, got = got_value, expected = v, error = None\<rparr>)"
  using assms
  by (simp add: run_single_case_body_def fst_then_do quiet_def split: sum.splits)

lemma fst_run_single_case:
  "fst (run_single_case rt code ep c mem cpu)
     = (case fst (run_single_case_body rt code ep c mem cpu) of
          Inr r \<Rightarrow> Inr r
        | Inl e \<Rightarrow>
            if is_Exception e
            then Inr \<lparr>passed = PBool False, got = PNone,
                      expected = get_or_none c (u ''output''),
                      error = Some (exc_name e @ u '': '' @ exc_str e @ [10] @ format_exc e)\<rparr>
            else Inl e)"
  by (simp add: run_single_case_def split: prod.splits sum.splits)

text \<open>
  Claim C9, as the code has it. When the entry point has returned a value, the expected value is
  the \<^verbatim>\<open>literal_eval\<close> of the case's output; when that raises an \<^verbatim>\<open>Exception\<close>, it is
  the output text evaluated in the namespace the submitted code left. \<open>passed\<close> is what
  Python's \<^verbatim>\<open>got == expected\<close> gives: for plain values (no object in them) the deep
  equality by value, a boolean; when an object is involved, whatever its \<^verbatim>\<open>__eq__\<close>
  returns, boolean or not; and when the comparison raises an \<^verbatim>\<open>Exception\<close>, the result
  is the error result with \<open>passed\<close> false.
\<close>

theorem compare_with_expected:
  assumes "fst (invoke_entry rt code ep c mem cpu) = Inr (g, got_value)"
    and "c (u ''output'') = Some out"
  shows
    "(literal_eval rt out = Inr v \<longrightarrow> fst (expected_value rt c g) = Inr v)
     \<and> (literal_eval rt out = Inl e \<and> is_Exception e \<longrightarrow>
          fst (expected_value rt c g) = py_eval rt out g)
     \<and> (fst (expected_value rt c g) = Inr v \<and> plain got_value \<and> plain v \<longrightarrow>
          fst (run_single_case rt code ep c mem cpu)
            = Inr \<lparr>passed = PBool (plain_eq got_value v), got = got_value, expected = v,
                   error = None\<rparr>)
     \<and> (fst (expected_value rt c g) = Inr v \<and> \<not> (plain got_value \<and> plain v)
          \<and> obj_eq rt got_value v = Inr p \<longrightarrow>
          fst (run_single_case rt code ep c mem cpu)
            = Inr \<lparr>passed = p, got = got_value, expected = v, error = None\<rparr>)
     \<and> (fst (expected_value rt c g) = Inr v \<and> \<not> (plain got_value \<and> plain v)
          \<and> obj_eq rt got_value v = Inl x \<and> is_Exception x \<longrightarrow>
          fst (run_single_case rt code ep c mem cpu)
            = Inr \<lparr>passed = PBool False, got = PNone, expected = PStr out,
                   error = Some (exc_name x @ u '': '' @ exc_str x @ [10] @ format_exc x)\<rparr>)"
proof (intro conjI impI)
  assume "literal_eval rt out = Inr v"
  with assms(2) show "fst (expected_value rt c g) = Inr v"
    by (simp add: expected_value_def getitem_def quiet_def)
next
  assume "literal_eval rt out = Inl e \<and> is_Exception e"
  with assms(2) show "fst (expected_value rt c g) = py_eval rt out g"
    by (simp add: expected_value_def getitem_def quiet_def then_do_def step_def)
next
  assume a: "fst (expected_value rt c g) = Inr v \<and> plain got_value \<and> plain v"
  then have "fst (py_eq rt got_value v) = Inr (PBool (plain_eq got_value v))"
    by (simp add: py_eq_def quiet_def)
  with a run_single_case_after_entry [OF assms(1), of v]
  show "fst (run_single_case rt code ep c mem cpu)
            = Inr \<lparr>passed = PBool (plain_eq got_value v), got = got_value, expected = v,
                   error = None\<rparr>"
    by (simp add: fst_run_single_case)
next
  assume a: "fst (expected_value rt c g) = Inr v \<and> \<not> (plain got_value \<and> plain v)
          \<and> obj_eq rt got_value v = Inr p"
  then have "fst (py_eq rt got_value v) = Inr p"
    by (auto simp: py_eq_def step_def)
  with a run_single_case_after_entry [OF assms(1), of v]
  show "fst (run_single_case rt code ep c mem cpu)
            = Inr \<lparr>passed = p, got = got_value, expected = v, error = None\<rparr>"
    by (simp add: fst_run_single_case)
next
  assume a: "fst (expected_value rt c g) = Inr v \<and> \<not> (plain got_value \<and> plain v)
          \<and> obj_eq rt got_value v = Inl x \<and> is_Exception x"
  then have "fst (py_eq rt got_value v) = Inl x"
    by (auto simp: py_eq_def step_def)
  with a run_single_case_after_entry [OF assms(1), of v] assms(2)
  show "fst (run_single_case rt code ep c mem cpu)
            = Inr \<lparr>passed = PBool False, got = PNone, expected = PStr out,
                   error = Some (exc_name x @ u '': '' @ exc_str x @ [10] @ format_exc x)\<rparr>"
    by (simp add: fst_run_single_case get_or_none_def)
qed

theorem compare_with_expected_witness:
  "fst (run_single_case rt_add add_code (u ''add'') case_5 2048 4)
     = Inr \<lparr>passed = PBool True, got = PInt 5, expected = PInt 5, error = None\<rparr>
   \<and> fst (run_single_case rt_add add_code (u ''add'') case_6 2048 4)
     = Inr \<lparr>passed = PBool False, got = PInt 5, expected = PInt 6, error = None\<rparr>
   \<and> fst (run_single_case rt_add add_code (u ''add'') case_add 2048 4)
     = Inr \<lparr>passed = PBool False, got = PInt 5, expected = PObj 0, error = None\<rparr>"
proof -
  have le: "literal_eval rt_add = literal_eval_demo"
    by (simp add: rt_add_def)
  have i5: "fst (invoke_entry rt_add add_code (u ''add'') case_5 2048 4)
              = Inr ([u ''add'' \<mapsto> PObj 0], PInt 5)"
    by (simp add: invoke_entry_example)
  have i6: "fst (invoke_entry rt_add add_code (u ''add'') case_6 2048 4)
              = Inr ([u ''add'' \<mapsto> PObj 0], PInt 5)"
  proof -
    have "invoke_entry rt_add add_code (u ''add'') case_6 2048 4
            = invoke_entry rt_add add_code (u ''add'') case_5 2048 4"
      by (rule invoke_entry_same_input) (simp add: case_5_def case_6_def str_defs)
    then show ?thesis by (simp only: invoke_entry_example fst_conv)
  qed
  have ia: "fst (invoke_entry rt_add add_code (u ''add'') case_add 2048 4)
              = Inr ([u ''add'' \<mapsto> PObj 0], PInt 5)"
  proof -
    have "invoke_entry rt_add add_code (u ''add'') case_add 2048 4
            = invoke_entry rt_add add_code (u ''add'') case_5 2048 4"
      by (rule invoke_entry_same_input) (simp add: case_5_def case_add_def str_defs)
    then show ?thesis by (simp only: invoke_entry_example fst_conv)
  qed
  have o5: "case_5 (u ''output'') = Some (u ''5'')" by (simp add: case_5_def str_defs)
  have o6: "case_6 (u ''output'') = Some (u ''6'')" by (simp add: case_6_def str_defs)
  have oa: "case_add (u ''output'') = Some (u ''add'')" by (simp add: case_add_def str_defs)
  have ea: "py_eval rt_add (u ''add'') [u ''add'' \<mapsto> PObj 0] = Inr (PObj 0)"
    by (simp add: rt_add_def name_lookup_def)
  have qa: "obj_eq rt_add (PInt 5) (PObj 0) = Inr (PBool False)"
    by (simp add: rt_add_def)
  have a: "fst (run_single_case rt_add add_code (u ''add'') case_5 2048 4)
     = Inr \<lparr>passed = PBool True, got = PInt 5, expected = PInt 5, error = None\<rparr>"
    using compare_with_expected [where c = case_5 and v = "PInt 5", OF i5 o5]
    by (simp add: le lit_5)
  have b: "fst (run_single_case rt_add add_code (u ''add'') case_6 2048 4)
     = Inr \<lparr>passed = PBool False, got = PInt 5, expected = PInt 6, error = None\<rparr>"
    using compare_with_expected [where c = case_6 and v = "PInt 6", OF i6 o6]
    by (simp add: le lit_6)
  have c: "fst (run_single_case rt_add add_code (u ''add'') case_add 2048 4)
     = Inr \<lparr>passed = PBool False, got = PInt 5, expected = PObj 0, error = None\<rparr>"
    using compare_with_expected [where c = case_add and v = "PObj 0"
        and e = "ValueError (u ''malformed node or string'')" and p = "PBool False", OF ia oa]
    by (simp add: le lit_add ea qa ValueError_def)
  from a b c show ?thesis by simp
qed

lemma load_and_call_any:
  "load_and_call rt_any any_code (u ''add'') case_6
     = (Inr ([u ''Anything'' \<mapsto> PObj 3, u ''add'' \<mapsto> PObj 0], PObj 2),
        [ExecCode any_code, EvalExpr (u ''add''), CallFunc (PObj 0) [PInt 2, PInt 3]])"
proof -
  have i: "getitem case_6 (u ''input'') = Inr (u ''a=2, b=3'')"
    by (simp add: getitem_def case_6_def str_defs)
  have pk: "parse_kw rt_any (u ''a=2, b=3'') = Inr [(u ''a'', PInt 2), (u ''b'', PInt 3)]"
    using parse_kw_example by (simp add: parse_kw_def rt_any_def)
  have ex: "py_exec rt_any any_code = Inr [u ''Anything'' \<mapsto> PObj 3, u ''add'' \<mapsto> PObj 0]"
    by (simp add: rt_any_def)
  have ev: "py_eval rt_any (u ''add'') [u ''Anything'' \<mapsto> PObj 3, u ''add'' \<mapsto> PObj 0]
              = Inr (PObj 0)"
    by (simp add: rt_any_def rt_add_def name_lookup_def)
  have sp: "getfullargspec_args rt_any (PObj 0) = Inr [u ''a'', u ''b'']"
    by (simp add: rt_any_def rt_add_def)
  have lk: "lookup_all [(u ''a'', PInt 2), (u ''b'', PInt 3)] (declared_arg_names [u ''a'', u ''b''])
              = Inr [PInt 2, PInt 3]"
    by (simp add: declared_arg_names_def str_defs)
  have cl: "py_call rt_any (PObj 0) [PInt 2, PInt 3] = Inr (PObj 2)"
    by (simp add: rt_any_def)
  show ?thesis
    unfolding load_and_call_def
    by (simp add: then_do_def step_def quiet_def i ex ev sp pk lk cl)
qed

text \<open>
  Claim C9 as stated fails: the result of the program of \<open>rt_any\<close> is an object
  whose \<^verbatim>\<open>__eq__\<close> answers \<^verbatim>\<open>True\<close> to everything, and the case with the expected
  output \<^verbatim>\<open>6\<close> passes, although the value returned is not the number 6, nor
  structurally equal to it.
\<close>

theorem compare_object_counterexample:
  "run_single_case rt_any any_code (u ''add'') case_6 2048 4
     = (Inr \<lparr>passed = PBool True, got = PObj 2, expected = PInt 6, error = None\<rparr>,
        [SetRLimit RLIMIT_AS 2147483648 2147483648, SetRLimit RLIMIT_CPU 4 5,
         ExecCode any_code, EvalExpr (u ''add''), CallFunc (PObj 0) [PInt 2, PInt 3],
         CompareEq (PObj 2) (PInt 6)])
   \<and> PObj 2 \<noteq> PInt 6"
proof -
  have sl: "set_limits rt_any 2048 4
     = (Inr (), [SetRLimit RLIMIT_AS 2147483648 2147483648, SetRLimit RLIMIT_CPU 4 5])"
    by (simp add: set_limits_def eff_defs rt_any_def rt_add_def)
  have ev: "expected_value rt_any case_6 [u ''Anything'' \<mapsto> PObj 3, u ''add'' \<mapsto> PObj 0]
              = (Inr (PInt 6), [])"
  proof -
    have "getitem case_6 (u ''output'') = Inr (u ''6'')"
      by (simp add: getitem_def case_6_def str_defs)
    moreover have "literal_eval rt_any (u ''6'') = Inr (PInt 6)"
      by (simp add: rt_any_def rt_add_def lit_6)
    ultimately show ?thesis by (simp add: expected_value_def quiet_def)
  qed
  have eq: "py_eq rt_any (PObj 2) (PInt 6) = (Inr (PBool True), [CompareEq (PObj 2) (PInt 6)])"
    by (simp add: py_eq_def step_def rt_any_def)
  show ?thesis
    unfolding run_single_case_def run_single_case_body_def invoke_entry_def
    by (simp add: sl load_and_call_any ev eq then_do_def quiet_def)
qed

section \<open>Properties of the orchestrator\<close>

lemma case_loop_results:
  "case_loop env code ep mem cpu idx cs ap rs = Inr (ap', rs') \<Longrightarrow>
   \<exists>results. length results = length cs
     \<and> (\<forall>j < length cs. await_result env code ep mem cpu (idx + j) (cs ! j) = Inr (results ! j))
     \<and> rs' = rs @ map (\<lambda>j. stamp (idx + j) (cs ! j) (results ! j)) [0..<length cs]"
proof (induction cs arbitrary: idx ap rs)
  case Nil
  then show ?case by simp
next
  case (Cons c cs)
  from Cons.prems obtain r ap1 where
    r: "await_result env code ep mem cpu idx c = Inr r" and
    rec: "case_loop env code ep mem cpu (Suc idx) cs ap1 (rs @ [stamp idx c r]) = Inr (ap', rs')"
    by (auto split: sum.splits)
  from Cons.IH [OF rec] obtain results where
    l: "length results = length cs" and
    a: "\<forall>j < length cs. await_result env code ep mem cpu (Suc idx + j) (cs ! j) = Inr (results ! j)" and
    e: "rs' = (rs @ [stamp idx c r]) @ map (\<lambda>j. stamp (Suc idx + j) (cs ! j) (results ! j)) [0..<length cs]"
    by blast
  have "length (r # results) = length (c # cs)" using l by simp
  moreover have "\<forall>j < length (c # cs). await_result env code ep mem cpu (idx + j) ((c # cs) ! j) = Inr ((r # results) ! j)"
    using r a by (auto simp: nth_Cons split: nat.splits)
  moreover have "rs' = rs @ map (\<lambda>j. stamp (idx + j) ((c # cs) ! j) ((r # results) ! j)) [0..<length (c # cs)]"
  proof -
    have "map (\<lambda>j. stamp (idx + j) ((c # cs) ! j) ((r # results) ! j)) [0..<length (c # cs)]
          = stamp idx c r # map (\<lambda>j. stamp (Suc idx + j) (cs ! j) (results ! j)) [0..<length cs]"
      by (simp add: map_upt_Suc del: upt_Suc)
    with e show ?thesis by simp
  qed
  ultimately show ?case by blast
qed

lemma evaluate_cases_returned:
  "evaluate_cases env code ep io_cases mem cpu mw = Some (Inr (ap, rs)) \<Longrightarrow>
   case_loop env code ep mem cpu 0 io_cases (PBool True) [] = Inr (ap, rs)"
  by (auto simp: evaluate_cases_def split: sum.splits if_splits option.splits)

text \<open>
  Whenever \<open>evaluate_cases\<close> returns a batch result, it holds one result per input
  case, in the order of the input: the result at position \<open>i\<close> has \<open>case_index = i\<close> and
  the \<^verbatim>\<open>input\<close> text of case \<open>i\<close>, whatever order the workers finished in.
\<close>

lemma evaluate_cases_ordered:
  assumes "evaluate_cases env code ep io_cases mem cpu mw = Some (Inr (all_passed, case_results))"
  shows "length case_results = length io_cases"
    and "\<forall>i < length io_cases.
           case_index (case_results ! i) = i
           \<and> input_text (case_results ! i) = (io_cases ! i) (u ''input'')"
proof -
  from evaluate_cases_returned [OF assms] obtain results where
    l: "length results = length io_cases" and
    e: "case_results = map (\<lambda>j. stamp j (io_cases ! j) (results ! j)) [0..<length io_cases]"
    using case_loop_results [of env code ep mem cpu 0 io_cases "PBool True" "[]"]
    by auto
  show "length case_results = length io_cases" using e by simp
  show "\<forall>i < length io_cases. case_index (case_results ! i) = i
          \<and> input_text (case_results ! i) = (io_cases ! i) (u ''input'')"
    using e by (simp add: stamp_def)
qed

lemma py_and_bools: "py_and env (PBool a) (PBool b) = Inr (PBool (a \<and> b))"
  by (simp add: py_and_def)

lemma passed_stamp: "passed (stamp i c r) = passed r"
  by (simp add: stamp_def)

lemma case_loop_bools:
  "case_loop env code ep mem cpu idx cs (PBool b) rs = Inr (ap', rs') \<Longrightarrow>
   list_all (\<lambda>r. is_bool (passed r)) (drop (length rs) rs') \<Longrightarrow>
   ap' = PBool (b \<and> list_all (\<lambda>r. passed r = PBool True) (drop (length rs) rs'))"
proof (induction cs arbitrary: idx b rs)
  case Nil
  then show ?case by simp
next
  case (Cons c cs)
  from Cons.prems(1) obtain r ap1 where
    r: "await_result env code ep mem cpu idx c = Inr r" and
    a: "py_and env (PBool b) (passed r) = Inr ap1" and
    rec: "case_loop env code ep mem cpu (Suc idx) cs ap1 (rs @ [stamp idx c r]) = Inr (ap', rs')"
    by (auto split: sum.splits)
  from case_loop_results [OF rec] obtain more where
    e: "rs' = (rs @ [stamp idx c r]) @ more" by blast
  then have d: "drop (length rs) rs' = stamp idx c r # more" by simp
  have d': "drop (length (rs @ [stamp idx c r])) rs' = more" using e by simp
  from Cons.prems(2) d have "is_bool (passed r)" by (simp add: passed_stamp)
  then obtain x where x: "passed r = PBool x" by (cases "passed r") simp_all
  with a have ap1: "ap1 = PBool (b \<and> x)" by (simp add: py_and_bools)
  from Cons.prems(2) d d' have "list_all (\<lambda>r. is_bool (passed r)) (drop (length (rs @ [stamp idx c r])) rs')"
    by simp
  from Cons.IH [OF rec [unfolded ap1] this]
  show ?case unfolding d d' by (simp add: passed_stamp x)
qed

text \<open>
  Whenever \<open>evaluate_cases\<close> returns a batch result in which every \<open>passed\<close> is a
  boolean, \<open>all_passed\<close> is the boolean that says whether all of them are true; for the
  empty list it returns \<open>(True, [])\<close>, once the pool could be created.
\<close>

lemma all_passed_of_booleans:
  assumes "evaluate_cases env code ep io_cases mem cpu mw = Some (Inr (all_passed, case_results))"
    and "list_all (\<lambda>r. is_bool (passed r)) case_results"
  shows "all_passed = PBool (list_all (\<lambda>r. passed r = PBool True) case_results)"
  using case_loop_bools [OF evaluate_cases_returned [OF assms(1)]] assms(2) by simp

lemma evaluate_cases_empty:
  "pool_size env mw = Inr n \<Longrightarrow>
   evaluate_cases env code ep [] mem cpu mw = Some (Inr (PBool True, []))"
  by (simp add: evaluate_cases_def submitted_def split: option.splits)

lemma await_result_timeout:
  "fate env idx = TimesOut \<or> fate env idx = Hangs \<Longrightarrow>
   await_result env code ep mem cpu idx c
     = Inr \<lparr>passed = PBool False, got = PNone, expected = get_or_none c (u ''output''),
            error = Some (u ''Timeout'')\<rparr>"
  by (auto simp: await_result_def fut_result_def)

lemma await_result_completes:
  "fate env idx = Completes \<Longrightarrow>
   fst (run_single_case (runtime env idx) code ep c mem cpu) = Inr r \<Longrightarrow>
   plain (passed r) \<and> plain (got r) \<and> plain (expected r) \<Longrightarrow>
   await_result env code ep mem cpu idx c = Inr r"
  by (simp add: await_result_def fut_result_def transfer_def)

lemma worker_exception_folded:
  "fst (run_single_case_body rt code ep c mem cpu) = Inl e \<Longrightarrow> is_Exception e \<Longrightarrow>
   fst (run_single_case rt code ep c mem cpu)
     = Inr \<lparr>passed = PBool False, got = PNone, expected = get_or_none c (u ''output''),
            error = Some (exc_name e @ u '': '' @ exc_str e @ [10] @ format_exc e)\<rparr>"
  by (simp add: fst_run_single_case)

lemma worker_exception_escapes:
  "fst (run_single_case_body rt code ep c mem cpu) = Inl e \<Longrightarrow> \<not> is_Exception e \<Longrightarrow>
   fst (run_single_case rt code ep c mem cpu) = Inl e"
  by (simp add: fst_run_single_case)

lemma fst_run_case_5:
  "fst (run_single_case rt_add add_code (u ''add'') case_5 2048 4)
     = Inr \<lparr>passed = PBool True, got = PInt 5, expected = PInt 5, error = None\<rparr>"
  by (simp add: run_case_5)

lemma fst_run_case_6:
  "fst (run_single_case rt_add add_code (u ''add'') case_6 2048 4)
     = Inr \<lparr>passed = PBool False, got = PInt 5, expected = PInt 6, error = None\<rparr>"
proof -
  have ie: "invoke_entry rt_add add_code (u ''add'') case_6 2048 4
          = invoke_entry rt_add add_code (u ''add'') case_5 2048 4"
    by (rule invoke_entry_same_input) (simp add: case_5_def case_6_def str_defs)
  have "getitem case_6 (u ''output'') = Inr (u ''6'')"
    by (simp add: getitem_def case_6_def str_defs)
  moreover have "literal_eval rt_add (u ''6'') = Inr (PInt 6)"
    by (simp add: rt_add_def lit_6)
  ultimately have ev: "\<And>g. expected_value rt_add case_6 g = (Inr (PInt 6), [])"
    by (simp add: expected_value_def quiet_def)
  show ?thesis
    unfolding run_single_case_def run_single_case_body_def
    by (simp add: ie invoke_entry_example ev then_do_def quiet_def py_eq_def)
qed

lemma pool_size_examples:
  "pool_size env_add None = Inr 4"
  "pool_size env_demo None = Inr 4"
  "pool_size env_exit None = Inr 4"
  "pool_size env_wait None = Inr 4"
  "pool_size env_two None = Inr 4"
  by (simp_all add: pool_size_def env_workers_def env_add_def env_demo_def env_exit_def
        env_wait_def env_two_def)

lemma demo_run:
  "evaluate_cases env_demo add_code (u ''add'') demo_cases 2048 4 None
     = Some (Inr (PBool False, demo_results))"
proof -
  have a0: "await_result env_demo add_code (u ''add'') 2048 4 0 case_5
              = Inr \<lparr>passed = PBool True, got = PInt 5, expected = PInt 5, error = None\<rparr>"
    by (rule await_result_completes) (simp_all add: env_demo_def env_add_def fst_run_case_5)
  have a1: "await_result env_demo add_code (u ''add'') 2048 4 (Suc 0) case_add
              = Inr \<lparr>passed = PBool False, got = PNone, expected = PStr (u ''add''),
                     error = Some (u ''Timeout'')\<rparr>"
    using await_result_timeout [of env_demo "Suc 0" add_code "u ''add''" 2048 4 case_add]
    by (simp add: env_demo_def get_or_none_def case_add_def str_defs)
  have a2: "await_result env_demo add_code (u ''add'') 2048 4 (Suc (Suc 0)) case_6
              = Inr \<lparr>passed = PBool False, got = PInt 5, expected = PInt 6, error = None\<rparr>"
    by (rule await_result_completes) (simp_all add: env_demo_def env_add_def fst_run_case_6)
  note ps = pool_size_examples(2)
  have sb: "submitted env_demo 3 = 3"
    by (simp add: submitted_def env_demo_def env_add_def upt_rec)
  have nh: "\<not> list_ex (\<lambda>i. fate env_demo i = Hangs) [0..<3]"
    by (simp add: env_demo_def upt_rec)
  have se: "submit_error env_demo 3 = None"
    by (simp add: env_demo_def env_add_def)
  have lp: "case_loop env_demo add_code (u ''add'') 2048 4 0 demo_cases (PBool True) []
              = Inr (PBool False, demo_results)"
    by (simp add: demo_cases_def a0 a1 a2 py_and_bools)
       (simp add: stamp_def demo_results_def case_5_def case_add_def case_6_def str_defs)
  have len: "length demo_cases = 3" by (simp add: demo_cases_def)
  show ?thesis
    by (simp add: evaluate_cases_def ps len sb nh se lp)
qed

lemma submitted_all: "(\<And>i. submit_error env i = None) \<Longrightarrow> submitted env n = n"
proof -
  assume a: "\<And>i. submit_error env i = None"
  have "List.find (\<lambda>i. submit_error env i \<noteq> None) [0..<n] = None"
    by (simp add: find_None_iff a)
  then show ?thesis by (simp add: submitted_def)
qed

lemma evaluate_cases_unfold:
  assumes "pool_size env mw = Inr n" and "\<And>i. submit_error env i = None"
  shows "evaluate_cases env code ep cs mem cpu mw
           = (if list_ex (\<lambda>i. fate env i = Hangs) [0..<length cs] then None
              else Some (case_loop env code ep mem cpu 0 cs (PBool True) []))"
  using assms by (simp add: evaluate_cases_def submitted_all)

lemma submit_error_examples:
  "submit_error env_add i = None"
  "submit_error env_demo i = None"
  "submit_error env_exit i = None"
  "submit_error env_wait i = None"
  "submit_error env_two i = None"
  by (simp_all add: env_add_def env_demo_def env_exit_def env_wait_def env_two_def)

text \<open>
  Claim C3. A worker result that is not there in time becomes the \<^verbatim>\<open>Timeout\<close> result
  (\<open>await_result_timeout\<close>), and an exception in the worker that derives from
  \<^verbatim>\<open>Exception\<close> becomes a failed result with an error text
  (\<open>worker_exception_folded\<close>). An exception that derives from \<^verbatim>\<open>BaseException\<close>
  only is not contained: when loading the submitted code raises \<^verbatim>\<open>SystemExit\<close>, the
  worker does not return a result, the future raises it in the parent, neither handler
  of the loop catches it, and \<open>evaluate_cases\<close> raises it instead of returning a batch
  result; the second case of the batch gets no result.
\<close>

theorem system_exit_aborts_batch:
  "fst (run_single_case rt_exit exit_code (u ''add'') case_5 2048 4)
     = Inl (PyExc BaseOnly (u ''SystemExit'') (u ''1'') [])
   \<and> evaluate_cases env_exit exit_code (u ''add'') [case_5, case_6] 2048 4 None
     = Some (Inl (PyExc BaseOnly (u ''SystemExit'') (u ''1'') []))"
proof -
  have b: "\<And>c. fst (run_single_case_body rt_exit exit_code (u ''add'') c 2048 4)
          = Inl (PyExc BaseOnly (u ''SystemExit'') (u ''1'') [])"
    by (simp add: run_single_case_body_def invoke_entry_def set_limits_def load_and_call_def
          then_do_def step_def raised_def rt_exit_def rt_add_def)
  have r: "\<And>c. fst (run_single_case rt_exit exit_code (u ''add'') c 2048 4)
          = Inl (PyExc BaseOnly (u ''SystemExit'') (u ''1'') [])"
    by (rule worker_exception_escapes [OF b]) simp
  have f: "fut_result env_exit exit_code (u ''add'') 2048 4 0 case_5
          = Inl (PyExc BaseOnly (u ''SystemExit'') (u ''1'') [])"
    using r [of case_5] by (simp add: fut_result_def env_exit_def env_add_def)
  have a: "await_result env_exit exit_code (u ''add'') 2048 4 0 case_5
          = Inl (PyExc BaseOnly (u ''SystemExit'') (u ''1'') [])"
    by (simp add: await_result_def f)
  have nh: "\<And>i. fate env_exit i = Completes"
    by (simp add: env_exit_def env_add_def)
  have ev: "evaluate_cases env_exit exit_code (u ''add'') [case_5, case_6] 2048 4 None
     = Some (Inl (PyExc BaseOnly (u ''SystemExit'') (u ''1'') []))"
    by (simp add: evaluate_cases_unfold [OF pool_size_examples(3) submit_error_examples(3)] nh a)
  from r [of case_5] ev show ?thesis by simp
qed

text \<open>
  Claim C1. \<open>evaluate_cases\<close> does not return a result list for every list of cases.
  With one case whose call blocks for ever, the loop gets the \<^verbatim>\<open>TimeoutError\<close> for the
  case after the per-case timeout and makes the \<^verbatim>\<open>Timeout\<close> result for it, and then
  the exit of the \<^verbatim>\<open>with\<close> block waits for the worker: \<open>evaluate_cases\<close> never returns
  the list it has built. (That a returned list is ordered and stamped as the claim
  says is \<open>evaluate_cases_ordered\<close>.)
\<close>

theorem blocked_worker_blocks_batch:
  "case_loop env_wait wait_code (u ''add'') 2048 4 0 [case_5] (PBool True) []
     = Inr (PBool False,
            [\<lparr>passed = PBool False, got = PNone, expected = PStr (u ''5''),
              error = Some (u ''Timeout''), case_index = 0,
              input_text = Some (u ''a=2, b=3'')\<rparr>])
   \<and> evaluate_cases env_wait wait_code (u ''add'') [case_5] 2048 4 None = None"
proof -
  have a: "await_result env_wait wait_code (u ''add'') 2048 4 0 case_5
              = Inr \<lparr>passed = PBool False, got = PNone, expected = PStr (u ''5''),
                     error = Some (u ''Timeout'')\<rparr>"
    using await_result_timeout [of env_wait 0 wait_code "u ''add''" 2048 4 case_5]
    by (simp add: env_wait_def get_or_none_def case_5_def str_defs)
  have lp: "case_loop env_wait wait_code (u ''add'') 2048 4 0 [case_5] (PBool True) []
     = Inr (PBool False,
            [\<lparr>passed = PBool False, got = PNone, expected = PStr (u ''5''),
              error = Some (u ''Timeout''), case_index = 0,
              input_text = Some (u ''a=2, b=3'')\<rparr>])"
    by (simp add: a py_and_bools) (simp add: stamp_def case_5_def str_defs)
  have h: "fate env_wait 0 = Hangs"
    by (simp add: env_wait_def)
  have ev: "evaluate_cases env_wait wait_code (u ''add'') [case_5] 2048 4 None = None"
    by (simp add: evaluate_cases_unfold [OF pool_size_examples(4) submit_error_examples(4)] h)
  from lp ev show ?thesis by simp
qed

lemma run_case_two:
  "fst (run_single_case rt_two two_code (u ''f'') case_zero 2048 4)
     = Inr \<lparr>passed = PInt 2, got = PObj 2, expected = PInt 0, error = None\<rparr>"
proof -
  have sl: "set_limits rt_two 2048 4
     = (Inr (), [SetRLimit RLIMIT_AS 2147483648 2147483648, SetRLimit RLIMIT_CPU 4 5])"
    by (simp add: set_limits_def eff_defs rt_two_def rt_add_def)
  have i: "getitem case_zero (u ''input'') = Inr []"
    by (simp add: getitem_def case_zero_def str_defs)
  have o: "getitem case_zero (u ''output'') = Inr (u ''0'')"
    by (simp add: getitem_def case_zero_def str_defs)
  have kp: "kw_pairs latin1_alnum [] = []"
    by (simp add: rx_defs str_defs)
  have pk: "parse_kw rt_two [] = Inr []"
    by (simp add: parse_kw_def rt_two_def rt_add_def kp)
  have pl: "parse_list rt_two [] = Inr []"
    by (simp add: parse_list_def rt_two_def rt_add_def strip_def lit_empty)
  have ex: "py_exec rt_two two_code = Inr [u ''A'' \<mapsto> PObj 3, u ''f'' \<mapsto> PObj 0]"
    by (simp add: rt_two_def)
  have ev: "py_eval rt_two (u ''f'') [u ''A'' \<mapsto> PObj 3, u ''f'' \<mapsto> PObj 0] = Inr (PObj 0)"
    by (simp add: rt_two_def rt_add_def name_lookup_def)
  have sp: "getfullargspec_args rt_two (PObj 0) = Inr []"
    by (simp add: rt_two_def)
  have cl: "py_call rt_two (PObj 0) [] = Inr (PObj 2)"
    by (simp add: rt_two_def)
  have lc: "load_and_call rt_two two_code (u ''f'') case_zero
     = (Inr ([u ''A'' \<mapsto> PObj 3, u ''f'' \<mapsto> PObj 0], PObj 2),
        [ExecCode two_code, EvalExpr (u ''f''), CallFunc (PObj 0) []])"
    unfolding load_and_call_def
    by (simp add: then_do_def step_def quiet_def i ex ev sp pk pl cl)
  have lit: "literal_eval rt_two (u ''0'') = Inr (PInt 0)"
    by (simp add: rt_two_def rt_add_def lit_0)
  have xv: "expected_value rt_two case_zero [u ''A'' \<mapsto> PObj 3, u ''f'' \<mapsto> PObj 0]
              = (Inr (PInt 0), [])"
    by (simp add: expected_value_def o lit quiet_def)
  have eq: "py_eq rt_two (PObj 2) (PInt 0) = (Inr (PInt 2), [CompareEq (PObj 2) (PInt 0)])"
    by (simp add: py_eq_def step_def rt_two_def)
  show ?thesis
    unfolding run_single_case_def run_single_case_body_def invoke_entry_def
    by (simp add: sl lc xv eq then_do_def quiet_def)
qed

text \<open>
  Claim C2. \<open>all_passed\<close> is not the conjunction of the \<open>passed\<close> fields. The one case
  of the batch below has \<open>passed = 2\<close>, which the result of the program's \<^verbatim>\<open>__eq__\<close>
  is and which counts as true; \<^verbatim>\<open>True & 2\<close> is the integer 0, and that is what
  \<open>evaluate_cases\<close> returns as \<open>all_passed\<close>: no boolean, and false although no case
  failed. (For results whose \<open>passed\<close> are all booleans it is their conjunction:
  \<open>all_passed_of_booleans\<close>.)
\<close>

theorem all_passed_not_conjunction:
  "evaluate_cases env_two two_code (u ''f'') [case_zero] 2048 4 None
     = Some (Inr (PInt 0,
                  [\<lparr>passed = PInt 2, got = PInt 0, expected = PInt 0, error = None,
                    case_index = 0, input_text = Some []\<rparr>]))"
proof -
  have f: "fut_result env_two two_code (u ''f'') 2048 4 0 case_zero
             = Inr \<lparr>passed = PInt 2, got = PInt 0, expected = PInt 0, error = None\<rparr>"
    using run_case_two
    by (simp add: fut_result_def env_two_def env_add_def transfer_def)
  have a: "await_result env_two two_code (u ''f'') 2048 4 0 case_zero
             = Inr \<lparr>passed = PInt 2, got = PInt 0, expected = PInt 0, error = None\<rparr>"
    by (simp add: await_result_def f)
  have pa: "py_and env_two (PBool True) (PInt 2) = Inr (PInt 0)"
    by (simp add: py_and_def)
  have lp: "case_loop env_two two_code (u ''f'') 2048 4 0 [case_zero] (PBool True) []
     = Inr (PInt 0, [\<lparr>passed = PInt 2, got = PInt 0, expected = PInt 0, error = None,
                      case_index = 0, input_text = Some []\<rparr>])"
    by (simp add: a pa) (simp add: stamp_def case_zero_def str_defs)
  have nh: "\<not> list_ex (\<lambda>i. fate env_two i = Hangs) [0..<length [case_zero]]"
    by (simp add: env_two_def env_add_def)
  show ?thesis
    by (simp only: evaluate_cases_unfold [OF pool_size_examples(5) submit_error_examples(5)]
          nh if_False lp)
qed

section \<open>Properties of the file endpoints and the command runner\<close>

lemmas path_defs = safe_dirname_def safe_rel_path_def normpath_def normpath_step_def
   startswith_def endswith_def path_join_def abspath_def dirname_def TMP_ROOT_def
lemmas fs_defs = makedirs_def heads_def mkdir_def open_write_def open_read_def resolve_def
   lresolve_def path_comps_def node_at_def is_dir_at_def stat_def path_exists_def isfile_def
   isdir_def os_remove_def os_rename_def path_error_def has_surrogate_def

lemma str_nat_404: "str_nat 404 = u ''404''"
  by (simp add: str_nat.simps [of 404] str_nat.simps [of 40] str_nat.simps [of 4] digit_char_def
        str_defs)

lemma safe_rel_path_error:
  "safe_rel_path rel = Inl e \<Longrightarrow> is_ValueError e \<and> (e = ValueError (exc_str e))"
  by (auto simp: safe_rel_path_def Let_def ValueError_def split: if_splits)

lemma safe_rel_path_rejects:
  assumes "startswith (normpath rel) (u ''/'')
           \<or> hd (split_on (ch CHR ''/'') (normpath rel)) = u ''..''"
  shows "\<exists>e. safe_rel_path rel = Inl e"
proof -
  have ne: "split_on (ch CHR ''/'') (normpath rel) \<noteq> []"
    by (cases "normpath rel") (auto split: list.splits)
  from assms show ?thesis
  proof
    assume "startswith (normpath rel) (u ''/'')"
    then show ?thesis by (simp add: safe_rel_path_def Let_def)
  next
    assume "hd (split_on (ch CHR ''/'') (normpath rel)) = u ''..''"
    with ne have "u ''..'' \<in> set (split_on (ch CHR ''/'') (normpath rel))"
      by (metis hd_in_set)
    then show ?thesis by (simp add: safe_rel_path_def Let_def)
  qed
qed

text \<open>
  A write whose normalized relative path is absolute or begins with a parent-directory
  segment fails with the path-invalid error (HTTP 400) and leaves the file system as it
  was.
\<close>

lemma write_file_rejects_traversal:
  assumes "startswith (normpath (wf_rel_path req)) (u ''/'')
           \<or> hd (split_on (ch CHR ''/'') (normpath (wf_rel_path req))) = u ''..''"
  shows "\<exists>msg. write_file os req = (Inl (HTTPException 400 msg), os)"
proof -
  from assms obtain e where e: "safe_rel_path (wf_rel_path req) = Inl e"
    using safe_rel_path_rejects by blast
  then have "is_ValueError e" using safe_rel_path_error by blast
  with e show ?thesis
    by (simp add: write_file_def write_file_body_def file_handlers_def)
qed

lemma write_file_rejects_etc_passwd:
  "write_file os_demo \<lparr>wf_id = u ''s1'', wf_rel_path = u ''../../etc/passwd'', wf_content = u ''x''\<rparr>
     = (Inl (HTTPException 400 (u ''Invalid path'')), os_demo)"
  by (simp add: write_file_def write_file_body_def file_handlers_def safe_rel_path_def
        normpath_def normpath_step_def startswith_def ValueError_def Let_def str_defs)

lemma session_s1: "safe_dirname (u ''s1'') = u ''/tmp/genie_repl/s1''"
  by (simp add: path_defs str_defs)

lemma demo_paths:
  "safe_rel_path (u ''out/passwd'') = Inr (u ''out/passwd'')"
  "abspath (u ''/srv'') (u ''/tmp/genie_repl/s1'') = u ''/tmp/genie_repl/s1''"
  "path_join (u ''/tmp/genie_repl/s1'') (u ''out/passwd'') = u ''/tmp/genie_repl/s1/out/passwd''"
  "abspath (u ''/srv'') (u ''/tmp/genie_repl/s1/out/passwd'') = u ''/tmp/genie_repl/s1/out/passwd''"
  "dirname (u ''/tmp/genie_repl/s1/out/passwd'') = u ''/tmp/genie_repl/s1/out''"
  "normpath (u ''out/passwd'') = u ''out/passwd''"
  by (simp_all add: path_defs Let_def str_defs)

lemma demo_resolve:
  "resolve os_demo (u ''/tmp/genie_repl/s1'') = Some [u ''tmp'', u ''genie_repl'', u ''s1'']"
  "resolve os_demo (u ''/tmp/genie_repl/s1/out'') = Some [u ''etc'']"
  "resolve os_demo (u ''/tmp/genie_repl/s1/out/passwd'') = Some [u ''etc'', u ''passwd'']"
  by (simp_all add: resolve_def path_comps_def is_dir_at_def startswith_def os_demo_def str_defs)


lemma demo_no_path_error: "list_all (\<lambda>c. c < 128 \<and> c \<noteq> 0) p \<Longrightarrow> path_error os_demo p = None"
  by (auto simp: path_error_def os_demo_def list_all_iff list_ex_iff)

lemma demo_makedirs:
  "makedirs os_demo (u ''/tmp/genie_repl/s1/out'') = (None, os_demo)"
proof -
  have h: "heads (u ''/tmp/genie_repl/s1/out'')
             = [u ''/tmp'', u ''/tmp/genie_repl'', u ''/tmp/genie_repl/s1'',
                u ''/tmp/genie_repl/s1/out'']"
    by (simp add: heads_def path_join_def startswith_def endswith_def str_defs)
  have pe: "path_error os_demo (u ''/tmp'') = None"
    "path_error os_demo (u ''/tmp/genie_repl'') = None"
    "path_error os_demo (u ''/tmp/genie_repl/s1'') = None"
    "path_error os_demo (u ''/tmp/genie_repl/s1/out'') = None"
    by (simp_all add: demo_no_path_error str_defs)
  have r: "resolve os_demo (u ''/tmp'') = Some [u ''tmp'']"
    "resolve os_demo (u ''/tmp/genie_repl'') = Some [u ''tmp'', u ''genie_repl'']"
    by (simp_all add: resolve_def path_comps_def is_dir_at_def startswith_def os_demo_def str_defs)
  have e: "path_exists os_demo (u ''/tmp'')"
    "path_exists os_demo (u ''/tmp/genie_repl'')"
    "path_exists os_demo (u ''/tmp/genie_repl/s1'')"
    by (simp_all add: path_exists_def stat_def pe r demo_resolve node_at_def)
       (simp_all add: os_demo_def str_defs)
  have lr: "lresolve os_demo (u ''/tmp/genie_repl/s1/out'')
              = Some [u ''tmp'', u ''genie_repl'', u ''s1'', u ''out'']"
    by (simp add: lresolve_def path_comps_def is_dir_at_def startswith_def os_demo_def Let_def
          str_defs)
  have n: "node_at os_demo [u ''tmp'', u ''genie_repl'', u ''s1'', u ''out''] = Some (Symlink (u ''/etc''))"
    by (simp add: node_at_def os_demo_def str_defs)
  have mk: "mkdir os_demo (u ''/tmp/genie_repl/s1/out'')
              = (Some (OSError ''FileExistsError'' (u ''/tmp/genie_repl/s1/out'')), os_demo)"
    by (simp add: mkdir_def pe lr n)
  have d: "isdir os_demo (u ''/tmp/genie_repl/s1/out'')"
    by (simp add: isdir_def stat_def pe demo_resolve node_at_def) (simp add: os_demo_def str_defs)
  show ?thesis
    by (simp add: makedirs_def h e mk d OSError_def) (simp add: str_defs)
qed

lemma demo_open_write:
  "open_write os_demo (u ''/tmp/genie_repl/s1/out/passwd'') (u ''pwned'')
     = (None, os_demo\<lparr>files := (files os_demo)([u ''etc'', u ''passwd''] \<mapsto> File (u ''pwned''))\<rparr>)"
proof -
  have pe: "path_error os_demo (u ''/tmp/genie_repl/s1/out/passwd'') = None"
    by (simp add: demo_no_path_error str_defs)
  have n: "node_at os_demo [u ''etc'', u ''passwd''] = Some (File (u ''root''))"
    "node_at os_demo [u ''etc''] = Some Dir"
    by (simp_all add: node_at_def os_demo_def str_defs)
  have s: "\<not> has_surrogate (u ''pwned'')"
    by (simp add: has_surrogate_def str_defs)
  show ?thesis
    by (simp add: open_write_def pe demo_resolve n s)
qed

text \<open>
  Claim C4. The check that \<^verbatim>\<open>write_file\<close> announces with \<^verbatim>\<open>Secure: prevent writes
  outside session dir\<close> does not do that. In \<open>os_demo\<close> the session \<^verbatim>\<open>s1\<close> holds the
  link \<^verbatim>\<open>out -> /etc\<close>; the write to \<^verbatim>\<open>out/passwd\<close> resolves outside the session root,
  is not rejected, and overwrites \<^verbatim>\<open>/etc/passwd\<close>: the check compares
  \<^verbatim>\<open>os.path.abspath\<close> strings, and \<^verbatim>\<open>abspath\<close> resolves no symbolic link.
\<close>

theorem write_through_symlink:
  "resolves_outside_root os_demo (u ''s1'') (u ''out/passwd'')
   \<and> files os_demo [u ''etc'', u ''passwd''] = Some (File (u ''root''))
   \<and> fst (write_file os_demo
            \<lparr>wf_id = u ''s1'', wf_rel_path = u ''out/passwd'', wf_content = u ''pwned''\<rparr>)
       = Inr (WriteOk (u ''s1'') (u ''out/passwd''))
   \<and> files (snd (write_file os_demo
                    \<lparr>wf_id = u ''s1'', wf_rel_path = u ''out/passwd'', wf_content = u ''pwned''\<rparr>))
        [u ''etc'', u ''passwd''] = Some (File (u ''pwned''))"
proof -
  have a: "resolves_outside_root os_demo (u ''s1'') (u ''out/passwd'')"
    by (simp add: resolves_outside_root_def session_s1 demo_paths demo_resolve)
  have b: "files os_demo [u ''etc'', u ''passwd''] = Some (File (u ''root''))"
    by (simp add: os_demo_def str_defs)
  have cw: "cwd os_demo = u ''/srv''" by (simp add: os_demo_def)
  have sw: "startswith (u ''/tmp/genie_repl/s1/out/passwd'') (u ''/tmp/genie_repl/s1'')"
    by (simp add: startswith_def str_defs)
  have c: "write_file os_demo
            \<lparr>wf_id = u ''s1'', wf_rel_path = u ''out/passwd'', wf_content = u ''pwned''\<rparr>
       = (Inr (WriteOk (u ''s1'') (u ''out/passwd'')),
          os_demo\<lparr>files := (files os_demo)([u ''etc'', u ''passwd''] \<mapsto> File (u ''pwned''))\<rparr>)"
    by (simp add: write_file_def write_file_body_def session_s1 demo_paths cw sw demo_makedirs
          demo_open_write file_handlers_def Let_def)
  from a b show ?thesis unfolding c by simp
qed


text \<open>A path that holds a NUL passes the two checks on the path text and is refused
  by \<^verbatim>\<open>open\<close> with a \<^verbatim>\<open>ValueError\<close>, which the endpoint answers with 400 as well.\<close>

lemma write_file_nul:
  "write_file os_demo \<lparr>wf_id = u ''s1'', wf_rel_path = [97, 0, 98], wf_content = u ''x''\<rparr>
     = (Inl (HTTPException 400 (u ''embedded null byte'')), os_demo)"
proof -
  have p: "safe_rel_path [97, 0, 98] = Inr [97, 0, 98]"
    "path_join (u ''/tmp/genie_repl/s1'') [97, 0, 98] = u ''/tmp/genie_repl/s1/'' @ [97, 0, 98]"
    "abspath (u ''/srv'') (u ''/tmp/genie_repl/s1/'' @ [97, 0, 98])
       = u ''/tmp/genie_repl/s1/'' @ [97, 0, 98]"
    "dirname (u ''/tmp/genie_repl/s1/'' @ [97, 0, 98]) = u ''/tmp/genie_repl/s1''"
    by (simp_all add: path_defs Let_def str_defs)
  have cw: "cwd os_demo = u ''/srv''" by (simp add: os_demo_def)
  have sw: "startswith (u ''/tmp/genie_repl/s1/'' @ [97, 0, 98]) (u ''/tmp/genie_repl/s1'')"
    by (simp add: startswith_def str_defs)
  have h: "heads (u ''/tmp/genie_repl/s1'')
             = [u ''/tmp'', u ''/tmp/genie_repl'', u ''/tmp/genie_repl/s1'']"
    by (simp add: heads_def path_join_def startswith_def endswith_def str_defs)
  have pe: "path_error os_demo (u ''/tmp'') = None"
    "path_error os_demo (u ''/tmp/genie_repl'') = None"
    "path_error os_demo (u ''/tmp/genie_repl/s1'') = None"
    by (simp_all add: demo_no_path_error str_defs)
  have r: "resolve os_demo (u ''/tmp'') = Some [u ''tmp'']"
    "resolve os_demo (u ''/tmp/genie_repl'') = Some [u ''tmp'', u ''genie_repl'']"
    by (simp_all add: resolve_def path_comps_def is_dir_at_def startswith_def os_demo_def str_defs)
  have e: "path_exists os_demo (u ''/tmp'')"
    "path_exists os_demo (u ''/tmp/genie_repl'')"
    by (simp_all add: path_exists_def stat_def pe r node_at_def)
       (simp_all add: os_demo_def str_defs)
  have lr: "lresolve os_demo (u ''/tmp/genie_repl/s1'') = Some [u ''tmp'', u ''genie_repl'', u ''s1'']"
    by (simp add: lresolve_def path_comps_def is_dir_at_def startswith_def os_demo_def Let_def
          str_defs)
  have n: "node_at os_demo [u ''tmp'', u ''genie_repl'', u ''s1''] = Some Dir"
    by (simp add: node_at_def os_demo_def str_defs)
  have mk: "mkdir os_demo (u ''/tmp/genie_repl/s1'')
              = (Some (OSError ''FileExistsError'' (u ''/tmp/genie_repl/s1'')), os_demo)"
    by (simp add: mkdir_def pe lr n)
  have d: "isdir os_demo (u ''/tmp/genie_repl/s1'')"
    by (simp add: isdir_def stat_def pe demo_resolve n)
  have md: "makedirs os_demo (u ''/tmp/genie_repl/s1'') = (None, os_demo)"
    by (simp add: makedirs_def h e mk d OSError_def) (simp add: str_defs)
  have ow: "open_write os_demo (u ''/tmp/genie_repl/s1/'' @ [97, 0, 98]) (u ''x'')
              = (Some (ValueError (u ''embedded null byte'')), os_demo)"
    by (simp add: open_write_def path_error_def os_demo_def str_defs)
  show ?thesis
    by (simp add: write_file_def write_file_body_def session_s1 p demo_paths cw sw md ow
          file_handlers_def ValueError_def Let_def)
qed

lemma demo_missing:
  "safe_rel_path (u ''missing.txt'') = Inr (u ''missing.txt'')"
  "safe_rel_path (u ''b.txt'') = Inr (u ''b.txt'')"
  "path_join (u ''/tmp/genie_repl/s1'') (u ''missing.txt'') = u ''/tmp/genie_repl/s1/missing.txt''"
  "path_join (u ''/tmp/genie_repl/s1'') (u ''b.txt'') = u ''/tmp/genie_repl/s1/b.txt''"
  "abspath (u ''/srv'') (u ''/tmp/genie_repl/s1/missing.txt'') = u ''/tmp/genie_repl/s1/missing.txt''"
  "abspath (u ''/srv'') (u ''/tmp/genie_repl/s1/b.txt'') = u ''/tmp/genie_repl/s1/b.txt''"
  "startswith (u ''/tmp/genie_repl/s1/missing.txt'') (u ''/tmp/genie_repl/s1'')"
  "startswith (u ''/tmp/genie_repl/s1/b.txt'') (u ''/tmp/genie_repl/s1'')"
  by (simp_all add: path_defs Let_def str_defs)

lemma demo_missing_isfile: "\<not> isfile os_demo (u ''/tmp/genie_repl/s1/missing.txt'')"
proof -
  have "resolve os_demo (u ''/tmp/genie_repl/s1/missing.txt'')
          = Some [u ''tmp'', u ''genie_repl'', u ''s1'', u ''missing.txt'']"
    by (simp add: resolve_def path_comps_def is_dir_at_def startswith_def os_demo_def str_defs)
  moreover have "node_at os_demo [u ''tmp'', u ''genie_repl'', u ''s1'', u ''missing.txt''] = None"
    by (simp add: node_at_def os_demo_def str_defs)
  ultimately show ?thesis by (simp add: isfile_def stat_def)
qed

text \<open>
  Claim C6. Deleting a file that is absent, and renaming one, raise
  \<^verbatim>\<open>HTTPException(404)\<close> inside the \<^verbatim>\<open>try\<close> block; the handler
  \<^verbatim>\<open>except Exception\<close> that closes the block catches it and raises
  \<^verbatim>\<open>HTTPException(500)\<close> in its place, so the caller sees the io-failure kind and not
  NotFound. \<^verbatim>\<open>read_file\<close>, which has no such handler, answers 404 for the same path.
\<close>

theorem not_found_becomes_500:
  "fst (delete_file os_demo \<lparr>df_id = u ''s1'', df_rel_path = u ''missing.txt''\<rparr>)
     = Inl (HTTPException 500 (u ''404: File does not exist''))
   \<and> fst (rename_file os_demo
            \<lparr>rf_id = u ''s1'', rf_old_path = u ''missing.txt'', rf_new_path = u ''b.txt''\<rparr>)
     = Inl (HTTPException 500 (u ''404: Old file does not exist''))
   \<and> read_file os_demo (u ''s1'') (u ''missing.txt'')
     = Inl (HTTPException 404 (u ''File does not exist''))"
proof -
  have cw: "cwd os_demo = u ''/srv''" by (simp add: os_demo_def)
  have a: "fst (delete_file os_demo \<lparr>df_id = u ''s1'', df_rel_path = u ''missing.txt''\<rparr>)
     = Inl (HTTPException 500 (u ''404: File does not exist''))"
    by (simp add: delete_file_def delete_file_body_def session_s1 demo_missing demo_paths cw
          demo_missing_isfile file_handlers_def Let_def str_nat_404)
       (simp add: str_defs)
  have b: "fst (rename_file os_demo
            \<lparr>rf_id = u ''s1'', rf_old_path = u ''missing.txt'', rf_new_path = u ''b.txt''\<rparr>)
     = Inl (HTTPException 500 (u ''404: Old file does not exist''))"
    by (simp add: rename_file_def rename_file_body_def session_s1 demo_missing demo_paths cw
          demo_missing_isfile file_handlers_def Let_def str_nat_404)
       (simp add: str_defs)
  have c: "read_file os_demo (u ''s1'') (u ''missing.txt'')
     = Inl (HTTPException 404 (u ''File does not exist''))"
    by (simp add: read_file_def read_file_body_def session_s1 demo_missing demo_paths cw
          demo_missing_isfile Let_def)
  from a b c show ?thesis by simp
qed

text \<open>
  Claim C5, as the code has it. When the session directory does not exist the call itself fails,
  with HTTP 400 and the detail \<^verbatim>\<open>Session does not exist\<close>, and no process is started.
  When it exists, the call returns a body with \<^verbatim>\<open>stdout\<close> and \<^verbatim>\<open>stderr\<close> and raises
  no \<^verbatim>\<open>Exception\<close>: the captured streams when the command ended in time; when it did
  not, the process is killed and waited for, and the body has an empty \<^verbatim>\<open>stdout\<close>,
  the synthetic \<^verbatim>\<open>stderr\<close> text \<^verbatim>\<open>Exception running command: Command '...' timed out
  after 30 seconds\<close> and status 500; and for any other \<^verbatim>\<open>Exception\<close> of
  \<^verbatim>\<open>subprocess.run\<close> (the directory vanished after the check, the output is not
  text) likewise an empty \<^verbatim>\<open>stdout\<close> and the reason in \<^verbatim>\<open>stderr\<close>.
\<close>

theorem run_command_outcomes:
  "(\<not> isdir os (safe_dirname (rc_id req)) \<longrightarrow>
      run_command sh os req = (Inl (HTTPException 400 (u ''Session does not exist'')), []))
   \<and> (isdir os (safe_dirname (rc_id req))
        \<and> sh (rc_cmd req) (safe_dirname (rc_id req)) = Exits out err \<longrightarrow>
        run_command sh os req
          = (Inr \<lparr>status_code = 200, stdout = out, stderr = err, resp_id = rc_id req\<rparr>,
             [Popen (rc_cmd req) (safe_dirname (rc_id req)), Wait]))
   \<and> (isdir os (safe_dirname (rc_id req))
        \<and> sh (rc_cmd req) (safe_dirname (rc_id req)) = RunsOver tb \<longrightarrow>
        run_command sh os req
          = (Inr \<lparr>status_code = 500, stdout = [],
                  stderr = u ''Exception running command: Command '' @ [39] @ rc_cmd req @ [39]
                           @ u '' timed out after 30 seconds'' @ [10] @ tb,
                  resp_id = rc_id req\<rparr>,
             [Popen (rc_cmd req) (safe_dirname (rc_id req)), Kill, Wait]))
   \<and> (isdir os (safe_dirname (rc_id req))
        \<and> sh (rc_cmd req) (safe_dirname (rc_id req)) = BadOutput e \<and> is_Exception e \<longrightarrow>
        run_command sh os req
          = (Inr \<lparr>status_code = 500, stdout = [],
                  stderr = u ''Exception running command: '' @ exc_str e @ [10] @ format_exc e,
                  resp_id = rc_id req\<rparr>,
             [Popen (rc_cmd req) (safe_dirname (rc_id req)), Kill, Wait]))
   \<and> (isdir os (safe_dirname (rc_id req))
        \<and> sh (rc_cmd req) (safe_dirname (rc_id req)) = SpawnFails e \<and> is_Exception e \<longrightarrow>
        run_command sh os req
          = (Inr \<lparr>status_code = 500, stdout = [],
                  stderr = u ''Exception running command: '' @ exc_str e @ [10] @ format_exc e,
                  resp_id = rc_id req\<rparr>,
             []))"
  by (simp add: run_command_def subprocess_run_def TimeoutExpired_def Let_def) (simp add: str_defs)

lemma isdir_demo_s1: "isdir os_demo (safe_dirname (u ''s1''))"
proof -
  have "path_error os_demo (u ''/tmp/genie_repl/s1'') = None"
    by (simp add: demo_no_path_error str_defs)
  moreover have "node_at os_demo [u ''tmp'', u ''genie_repl'', u ''s1''] = Some Dir"
    by (simp add: node_at_def os_demo_def str_defs)
  ultimately show ?thesis by (simp add: session_s1 isdir_def stat_def demo_resolve)
qed

lemma isdir_demo_nosuch: "\<not> isdir os_demo (safe_dirname (u ''nosuch''))"
proof -
  have s: "safe_dirname (u ''nosuch'') = u ''/tmp/genie_repl/nosuch''"
    by (simp add: path_defs str_defs)
  have "resolve os_demo (u ''/tmp/genie_repl/nosuch'') = Some [u ''tmp'', u ''genie_repl'', u ''nosuch'']"
    by (simp add: resolve_def path_comps_def is_dir_at_def startswith_def os_demo_def str_defs)
  moreover have "node_at os_demo [u ''tmp'', u ''genie_repl'', u ''nosuch''] = None"
    by (simp add: node_at_def os_demo_def str_defs)
  ultimately show ?thesis by (simp add: s isdir_def stat_def)
qed

theorem run_command_outcomes_witness:
  "run_command sh_ok os_demo \<lparr>rc_id = u ''s1'', rc_cmd = u ''echo hello''\<rparr>
     = (Inr \<lparr>status_code = 200, stdout = u ''hello'' @ [10], stderr = [], resp_id = u ''s1''\<rparr>,
        [Popen (u ''echo hello'') (u ''/tmp/genie_repl/s1''), Wait])
   \<and> run_command sh_timeout os_demo \<lparr>rc_id = u ''s1'', rc_cmd = u ''sleep 60''\<rparr>
     = (Inr \<lparr>status_code = 500, stdout = [],
             stderr = u ''Exception running command: Command '' @ [39] @ u ''sleep 60'' @ [39]
                      @ u '' timed out after 30 seconds'' @ [10]
                      @ u ''Traceback (most recent call last):'' @ [10],
             resp_id = u ''s1''\<rparr>,
        [Popen (u ''sleep 60'') (u ''/tmp/genie_repl/s1''), Kill, Wait])
   \<and> run_command sh_ok os_demo \<lparr>rc_id = u ''nosuch'', rc_cmd = u ''echo hello''\<rparr>
     = (Inl (HTTPException 400 (u ''Session does not exist'')), [])"
  using run_command_outcomes [of os_demo "\<lparr>rc_id = u ''s1'', rc_cmd = u ''echo hello''\<rparr>" sh_ok
          "u ''hello'' @ [10]" "[]"]
    run_command_outcomes [of os_demo "\<lparr>rc_id = u ''s1'', rc_cmd = u ''sleep 60''\<rparr>" sh_timeout _ _
       "u ''Traceback (most recent call last):'' @ [10]"]
    run_command_outcomes [of os_demo "\<lparr>rc_id = u ''nosuch'', rc_cmd = u ''echo hello''\<rparr>" sh_ok]
    isdir_demo_s1 isdir_demo_nosuch
  by (simp add: sh_ok_def sh_timeout_def session_s1)

text \<open>
  Claim C5 as stated fails for a session whose directory is missing: the call raises
  and returns no \<^verbatim>\<open>stdout\<close> or \<^verbatim>\<open>stderr\<close>; the failure is not returned as
  \<^verbatim>\<open>stderr\<close> text.
\<close>

theorem run_command_missing_session_counterexample:
  "\<not> (\<exists>resp. fst (run_command sh_ok os_demo \<lparr>rc_id = u ''nosuch'', rc_cmd = u ''echo hello''\<rparr>)
                 = Inr resp)
   \<and> fst (run_command sh_ok os_demo \<lparr>rc_id = u ''nosuch'', rc_cmd = u ''echo hello''\<rparr>)
       = Inl (HTTPException 400 (u ''Session does not exist''))"
  using isdir_demo_nosuch by (simp add: run_command_def Let_def)

end
